theory Spec2Isabelle
  imports Complex_Main "HOL-Library.Multiset" "HOL-Library.Product_Lexorder"
    "HOL-Library.Char_ord" "HOL-Library.List_Lexorder"
begin

section \<open>Cells, rows and tables\<close>

text \<open>
  A pandas DataFrame is modelled as the list of its rows, in index order. A numeric cell
  is a real number or missing (\<open>None\<close> stands for NaN); the arithmetic of the cells is
  exact, so the rounding of the 64-bit floats of the source is not part of the model. A
  text cell is a string or missing. A string is the sequence of the UTF-8 bytes of the
  Python string, which is the string itself for ASCII text.
\<close>

type_synonym numcell = "real option"
type_synonym textcell = "string option"

text \<open>
  \<open>attrition_date\<close> is read from the CSV as text and turned into a timestamp by
  \<open>pd.to_datetime(..., errors='coerce')\<close>; \<open>NaT\<close> is pandas' missing timestamp.
\<close>

datatype date_cell = RawDate textcell | Timestamp int | NaT

record employee =
  employee_id :: "int option"
  first_name :: textcell
  last_name :: textcell
  department :: textcell
  job_role :: textcell
  gender :: textcell
  education_level :: textcell
  marital_status :: textcell
  attrition :: textcell
  exit_reason :: textcell
  age :: numcell
  monthly_income :: numcell
  years_at_company :: numcell
  performance_rating :: numcell
  job_satisfaction :: numcell
  work_life_balance :: numcell
  distance_from_home :: numcell
  attrition_date :: date_cell
  overtime :: textcell

text \<open>The exceptions that the modelled functions raise.\<close>

datatype py_error = ZeroDivisionError | ValueError | AttributeError

text \<open>Comparisons of a cell with a constant: every comparison with NaN is false.\<close>

definition le_num :: "numcell \<Rightarrow> real \<Rightarrow> bool" where
  "le_num x b = (case x of None \<Rightarrow> False | Some v \<Rightarrow> v \<le> b)"

definition lt_num :: "numcell \<Rightarrow> real \<Rightarrow> bool" where
  "lt_num x b = (case x of None \<Rightarrow> False | Some v \<Rightarrow> v < b)"

definition ge_num :: "numcell \<Rightarrow> real \<Rightarrow> bool" where
  "ge_num x b = (case x of None \<Rightarrow> False | Some v \<Rightarrow> b \<le> v)"

definition gt_num :: "numcell \<Rightarrow> real \<Rightarrow> bool" where
  "gt_num x b = (case x of None \<Rightarrow> False | Some v \<Rightarrow> b < v)"

definition eq_num :: "numcell \<Rightarrow> real \<Rightarrow> bool" where
  "eq_num x b = (case x of None \<Rightarrow> False | Some v \<Rightarrow> v = b)"

section \<open>The numeric risk score (attrition\_analysis.py, identify\_high\_risk\_employees)\<close>

text \<open>
  The inner function \<open>calculate_risk_score(row)\<close>, branch by branch and in the order of
  the source: the tenure test looks at \<open>1 <= years <= 3\<close> first and at \<open>years < 1\<close> second.
\<close>

definition calculate_risk_score :: "employee \<Rightarrow> int" where
  "calculate_risk_score row =
     (let score = 0;
          score = (if le_num (job_satisfaction row) 2 then score + 3
                   else if eq_num (job_satisfaction row) 3 then score + 2 else score);
          score = (if le_num (work_life_balance row) 2 then score + 3
                   else if eq_num (work_life_balance row) 3 then score + 2 else score);
          score = (if ge_num (years_at_company row) 1 \<and> le_num (years_at_company row) 3
                   then score + 2
                   else if lt_num (years_at_company row) 1 then score + 3 else score);
          score = (if ge_num (performance_rating row) 4 then score + 1 else score)
      in score)"

text \<open>\<open>self.employee_data[self.employee_data['attrition'] == 'No']\<close>\<close>

definition current_employees :: "employee list \<Rightarrow> employee list" where
  "current_employees df = filter (\<lambda>r. attrition r = Some ''No'') df"

text \<open>
  The table of current employees with its new column \<open>risk_score\<close>: a row is paired with
  its score.
\<close>

definition with_risk_score :: "employee list \<Rightarrow> (employee \<times> int) list" where
  "with_risk_score df = map (\<lambda>r. (r, calculate_risk_score r)) (current_employees df)"

text \<open>
  \<open>high_risk\<close>: the rows with \<open>risk_score >= 6\<close>, sorted by the score, highest first.
  The order among equal scores is the one of a stable sort; no statement below depends
  on it. The department summary that the function also prints is not modelled.
\<close>

definition identify_high_risk_employees :: "employee list \<Rightarrow> (employee \<times> int) list" where
  "identify_high_risk_employees df =
     sort_key (\<lambda>p. - snd p) (filter (\<lambda>p. 6 \<le> snd p) (with_risk_score df))"

text \<open>The score as the specification writes it, on the four values of a row.\<close>

definition spec_risk_score :: "real \<Rightarrow> real \<Rightarrow> real \<Rightarrow> real \<Rightarrow> int" where
  "spec_risk_score js wlb yrs perf =
     (if js \<le> 2 then 3 else if js = 3 then 2 else 0)
   + (if wlb \<le> 2 then 3 else if wlb = 3 then 2 else 0)
   + (if yrs < 1 then 3 else if 1 \<le> yrs \<and> yrs \<le> 3 then 2 else 0)
   + (if 4 \<le> perf then 1 else 0)"

text \<open>The example row of the specification; the fields it does not give are missing.\<close>

definition example_row :: employee where
  "example_row =
     \<lparr>employee_id = Some 1, first_name = None, last_name = None, department = Some ''IT'',
      job_role = None, gender = None, education_level = None, marital_status = None,
      attrition = Some ''No'', exit_reason = None, age = None, monthly_income = None,
      years_at_company = Some 2, performance_rating = Some 5, job_satisfaction = Some 1,
      work_life_balance = Some 1, distance_from_home = None, attrition_date = NaT,
      overtime = None\<rparr>"

section \<open>Feature engineering (data\_preprocessing.py, engineer\_features)\<close>

text \<open>
  \<open>pd.cut(x, bins, labels)\<close> with its defaults (\<open>right=True\<close>, \<open>include_lowest=False\<close>):
  the value gets the label of the interval \<open>(bins[i], bins[i+1]]\<close> it lies in, and no label
  (NaN) when it lies in none, which includes the lowest edge itself and a missing value.
\<close>

fun cut :: "real list \<Rightarrow> 'a list \<Rightarrow> real \<Rightarrow> 'a option" where
  "cut (lo # hi # bins) (l # labels) x =
     (if lo < x \<and> x \<le> hi then Some l else cut (hi # bins) labels x)"
| "cut _ _ _ = None"

definition cut_cell :: "real list \<Rightarrow> 'a list \<Rightarrow> numcell \<Rightarrow> 'a option" where
  "cut_cell bins labels c = (case c of None \<Rightarrow> None | Some x \<Rightarrow> cut bins labels x)"

text \<open>Arithmetic on cells: NaN in, NaN out.\<close>

definition add_num :: "numcell \<Rightarrow> numcell \<Rightarrow> numcell" where
  "add_num a b = (case a of None \<Rightarrow> None
                  | Some x \<Rightarrow> (case b of None \<Rightarrow> None | Some y \<Rightarrow> Some (x + y)))"

definition rsub_num :: "real \<Rightarrow> numcell \<Rightarrow> numcell" where
  "rsub_num k a = (case a of None \<Rightarrow> None | Some x \<Rightarrow> Some (k - x))"

definition mul_num :: "numcell \<Rightarrow> real \<Rightarrow> numcell" where
  "mul_num a k = (case a of None \<Rightarrow> None | Some x \<Rightarrow> Some (x * k))"

text \<open>
  The columns \<open>engineer_features\<close> computes from the row alone. \<open>salary_quartile\<close>
  depends on the whole income column and is modelled below; the value of
  \<open>leadership_role\<close> (a regular expression on the job role) is left out.
\<close>

record features =
  age_group :: "string option"
  tenure_group :: "string option"
  commute_category :: "string option"
  performance_category :: "string option"
  satisfaction_risk_score :: numcell
  engagement_score :: numcell
  high_risk_employee :: bool
  overtime_binary :: "int option"
  tenure_at_exit :: numcell

definition fe_age_group :: "numcell \<Rightarrow> string option" where
  "fe_age_group a =
     cut_cell [0, 25, 30, 35, 40, 50, 100]
       [''Under_25'', ''25_29'', ''30_34'', ''35_39'', ''40_49'', ''Over_50''] a"

definition fe_tenure_group :: "numcell \<Rightarrow> string option" where
  "fe_tenure_group y =
     cut_cell [0, 1, 3, 5, 10, 100]
       [''New_0_1'', ''Early_1_3'', ''Mid_3_5'', ''Senior_5_10'', ''Veteran_10plus''] y"

definition fe_commute_category :: "numcell \<Rightarrow> string option" where
  "fe_commute_category d =
     cut_cell [0, 10, 20, 30, 100] [''Close'', ''Moderate'', ''Far'', ''Very_Far''] d"

definition fe_performance_category :: "numcell \<Rightarrow> string option" where
  "fe_performance_category p =
     (if eq_num p 1 then Some ''Poor''
      else if eq_num p 2 then Some ''Below_Average''
      else if eq_num p 3 then Some ''Average''
      else if eq_num p 4 then Some ''Good''
      else if eq_num p 5 then Some ''Excellent''
      else None)"

definition fe_satisfaction_risk_score :: "employee \<Rightarrow> numcell" where
  "fe_satisfaction_risk_score row =
     add_num (mul_num (rsub_num 5 (job_satisfaction row)) 2)
             (mul_num (rsub_num 5 (work_life_balance row)) 1.5)"

definition fe_engagement_score :: "employee \<Rightarrow> numcell" where
  "fe_engagement_score row =
     add_num (add_num (mul_num (job_satisfaction row) 0.4)
                      (mul_num (work_life_balance row) 0.3))
             (mul_num (performance_rating row) 0.3)"

text \<open>\<open>Series.between(1, 3)\<close> includes both ends.\<close>

definition fe_high_risk_employee :: "employee \<Rightarrow> bool" where
  "fe_high_risk_employee row =
     (le_num (job_satisfaction row) 2
      \<or> le_num (work_life_balance row) 2
      \<or> (ge_num (years_at_company row) 1 \<and> le_num (years_at_company row) 3)
      \<or> ge_num (performance_rating row) 4)"

definition features_of :: "employee \<Rightarrow> features" where
  "features_of row =
     \<lparr>age_group = fe_age_group (age row),
      tenure_group = fe_tenure_group (years_at_company row),
      commute_category = fe_commute_category (distance_from_home row),
      performance_category = fe_performance_category (performance_rating row),
      satisfaction_risk_score = fe_satisfaction_risk_score row,
      engagement_score = fe_engagement_score row,
      high_risk_employee = fe_high_risk_employee row,
      overtime_binary =
        (if overtime row = Some ''Yes'' then Some 1
         else if overtime row = Some ''No'' then Some 0 else None),
      tenure_at_exit = (if attrition row = Some ''Yes'' then years_at_company row else None)\<rparr>"

text \<open>
  \<open>pd.qcut(df['monthly_income'], 4, labels=[...])\<close>. The bin edges are the quantiles
  0, 1/4, 1/2, 3/4 and 1 of the incomes that are present, taken by linear interpolation
  between the sorted values: the quantile \<open>k/4\<close> of \<open>n\<close> values lies at the position
  \<open>k*(n-1)/4\<close>. With the default \<open>duplicates='raise'\<close> the call raises ValueError when
  two edges coincide, which a single income, tied incomes or a column without incomes
  bring about (for a column without incomes the exception is modelled as ValueError as
  well). Otherwise a value gets the label of the interval \<open>(edge i, edge (i+1)]\<close> it
  lies in, the lowest edge included in the first one.
\<close>

definition quantile_edge :: "real list \<Rightarrow> nat \<Rightarrow> real" where
  "quantile_edge s k =
     (let n = length s;
          i = (k * (n - 1)) div 4;
          f = real ((k * (n - 1)) mod 4) / 4
      in s ! i + (s ! (min (i + 1) (n - 1)) - s ! i) * f)"

definition qcut_edges :: "numcell list \<Rightarrow> py_error + real list" where
  "qcut_edges col =
     (let s = sort (List.map_filter (\<lambda>c. c) col)
      in if s = [] then Inl ValueError
         else (let edges = map (quantile_edge s) [0, 1, 2, 3, 4]
               in if distinct edges then Inr edges else Inl ValueError))"

definition salary_quartile_labels :: "string list" where
  "salary_quartile_labels = [''Q1_Low'', ''Q2_Medium'', ''Q3_High'', ''Q4_Top'']"

definition qcut_label :: "real list \<Rightarrow> numcell \<Rightarrow> string option" where
  "qcut_label edges c =
     (case c of
        None \<Rightarrow> None
      | Some x \<Rightarrow> (if edges \<noteq> [] \<and> x = hd edges then Some (hd salary_quartile_labels)
                  else cut edges salary_quartile_labels x))"

text \<open>
  \<open>engineer_features\<close>: the table with its new columns, a row paired with its features
  and its salary quartile, or the exception that ends the call. Two steps can raise.
  \<open>pd.qcut\<close> (line 312) runs before the scores and the flag are computed. The
  \<open>.str\<close> accessor on \<open>job_role\<close> (line 347) runs after them and raises AttributeError on
  a column that holds no text at all, which pandas reads as a column of floats; after
  cleaning every job role is text. In both cases the function returns nothing.
\<close>

definition engineer_features ::
  "employee list \<Rightarrow> py_error + (employee \<times> features \<times> string option) list" where
  "engineer_features df =
     (case qcut_edges (map monthly_income df) of
        Inl e \<Rightarrow> Inl e
      | Inr edges \<Rightarrow>
          (if list_all (\<lambda>row. job_role row = None) df then Inl AttributeError
           else Inr (map (\<lambda>row. (row, features_of row, qcut_label edges (monthly_income row)))
                      df)))"

text \<open>
  A table of two employees with different incomes, on which feature engineering succeeds:
  the example row, and an employee that none of the four risk conditions holds for.
\<close>

definition settled_row :: employee where
  "settled_row =
     example_row\<lparr>employee_id := Some 3, job_role := Some ''Analyst'',
       monthly_income := Some 5000, years_at_company := Some 10,
       performance_rating := Some 3, job_satisfaction := Some 4,
       work_life_balance := Some 4\<rparr>"

definition feature_table :: "employee list" where
  "feature_table = [example_row\<lparr>monthly_income := Some 3000\<rparr>, settled_row]"

text \<open>The high-risk flag and the two buckets as the specification words them.\<close>

definition spec_high_risk_flag :: "employee \<Rightarrow> bool" where
  "spec_high_risk_flag row =
     ((\<exists>v. job_satisfaction row = Some v \<and> v \<le> 2)
      \<or> (\<exists>v. work_life_balance row = Some v \<and> v \<le> 2)
      \<or> (\<exists>v. years_at_company row = Some v \<and> 1 \<le> v \<and> v \<le> 3)
      \<or> (\<exists>v. performance_rating row = Some v \<and> 4 \<le> v))"

definition spec_age_group :: "numcell \<Rightarrow> string option" where
  "spec_age_group a =
     cut_cell [0, 25, 30, 35, 40, 100]
       [''Under25'', ''25-30'', ''31-35'', ''36-40'', ''Over40''] a"

definition spec_tenure_interval :: "numcell \<Rightarrow> (real \<times> real) option" where
  "spec_tenure_interval y =
     cut_cell [0, 1, 3, 7, 12, 100] [(0, 1), (1, 3), (3, 7), (7, 12), (12, 100)] y"

section \<open>Bucketing in the analysis (attrition\_analysis.py)\<close>

text \<open>
  \<open>analyze_demographics\<close> and \<open>analyze_tenure_impact\<close> overwrite the columns
  \<open>age_group\<close> and \<open>tenure_group\<close> with their own buckets before grouping.
\<close>

definition age_group_labels :: "string list" where
  "age_group_labels = [''Under 25'', ''25-30'', ''31-35'', ''36-40'', ''Over 40'']"

definition analysis_age_group :: "employee \<Rightarrow> string option" where
  "analysis_age_group row = cut_cell [0, 25, 30, 35, 40, 100] age_group_labels (age row)"

definition tenure_group_labels :: "string list" where
  "tenure_group_labels = [''<1 year'', ''1-3 years'', ''4-7 years'', ''8-12 years'', ''>12 years'']"

definition analysis_tenure_group :: "employee \<Rightarrow> string option" where
  "analysis_tenure_group row =
     cut_cell [0, 1, 3, 7, 12, 100] tenure_group_labels (years_at_company row)"

section \<open>Merging (data\_preprocessing.py, merge\_datasets)\<close>

text \<open>
  A row of the performance table or of the exit-survey table, after the projection to
  the columns \<open>merge_datasets\<close> selects, is its \<open>employee_id\<close> paired with the other
  selected columns; their type is left open, since the join only reads the identifier.

  \<open>DataFrame.merge(right, on='employee_id', how='left')\<close>: the rows of the left table
  in their order; a left row is paired with every right row of the same identifier, in
  the order of the right table, and stays once, with the right columns missing, when no
  right row has its identifier. pandas gives nothing else to the join: no option of the
  call in the source restricts the matches to the first one.
\<close>

definition matches :: "(int option \<times> 'p) list \<Rightarrow> int option \<Rightarrow> (int option \<times> 'p) list" where
  "matches right k = filter (\<lambda>r. fst r = k) right"

definition merge_row :: "('l \<Rightarrow> int option) \<Rightarrow> (int option \<times> 'p) list \<Rightarrow> 'l \<Rightarrow> ('l \<times> 'p option) list" where
  "merge_row key right l =
     (case matches right (key l) of
        [] \<Rightarrow> [(l, None)]
      | m # ms \<Rightarrow> map (\<lambda>r. (l, Some (snd r))) (m # ms))"

definition left_merge :: "('l \<Rightarrow> int option) \<Rightarrow> 'l list \<Rightarrow> (int option \<times> 'p) list \<Rightarrow> ('l \<times> 'p option) list" where
  "left_merge key left right = concat (map (merge_row key right) left)"

text \<open>
  \<open>merge_datasets\<close>: \<open>None\<close> when there is no employee table; a missing performance or
  exit-survey table leaves its columns out, which the model writes as missing values.
\<close>

definition merge_datasets ::
  "employee list option \<Rightarrow> (int option \<times> 'p) list option \<Rightarrow> (int option \<times> 'q) list option
     \<Rightarrow> ((employee \<times> 'p option) \<times> 'q option) list option" where
  "merge_datasets employee_data performance_data exit_survey_data =
     (case employee_data of
        None \<Rightarrow> None
      | Some employees \<Rightarrow>
          (let merged_df =
                 (case performance_data of
                    None \<Rightarrow> map (\<lambda>e. (e, None)) employees
                  | Some perf \<Rightarrow> left_merge employee_id employees perf);
               merged_df =
                 (case exit_survey_data of
                    None \<Rightarrow> map (\<lambda>m. (m, None)) merged_df
                  | Some ex \<Rightarrow> left_merge (\<lambda>m. employee_id (fst m)) merged_df ex)
           in Some merged_df))"

text \<open>
  For the statements about the join: how many rows of a joined table carry an identifier,
  and whether a joined table has no identifier twice. A table that is absent plays no part.
\<close>

definition match_count :: "(int option \<times> 'p) list option \<Rightarrow> int option \<Rightarrow> nat" where
  "match_count t k = (case t of None \<Rightarrow> 0 | Some rows \<Rightarrow> length (matches rows k))"

definition unique_ids :: "(int option \<times> 'p) list option \<Rightarrow> bool" where
  "unique_ids t = (case t of None \<Rightarrow> True | Some rows \<Rightarrow> distinct (map fst rows))"

text \<open>
  The values that the join attaches to a left row with the identifier \<open>k\<close>: the values of
  all rows of the joined table with that identifier, in the order of that table, and one
  missing value when there is no such row or no such table.
\<close>

definition joined_values :: "(int option \<times> 'p) list option \<Rightarrow> int option \<Rightarrow> 'p option list" where
  "joined_values t k =
     (case t of
        None \<Rightarrow> [None]
      | Some rows \<Rightarrow> (if matches rows k = [] then [None]
                      else map (\<lambda>r. Some (snd r)) (matches rows k)))"

section \<open>Aggregation (attrition\_analysis.py)\<close>

text \<open>
  The outcome of a float division of two counts in pandas: a number, infinity (a
  positive count over zero) or NaN (zero over zero).
\<close>

datatype fval = Finite real | PosInf | NaN

definition py_rate :: "nat \<Rightarrow> nat \<Rightarrow> fval" where
  "py_rate d n =
     (if n = 0 then (if d = 0 then NaN else PosInf) else Finite (real d / real n * 100))"

text \<open>
  One row of a rate table: the group's label, \<open>count\<close> of the column \<open>employee_id\<close>
  (pandas counts the values that are not missing), the number of rows whose
  \<open>attrition\<close> is \<open>'Yes'\<close>, and the rate column computed from the two. For a
  group without rows the model writes 0 departed rows; its rate is NaN whatever pandas
  writes there.
\<close>

record 'k group_row =
  label :: 'k
  total_employees :: nat
  departed :: nat
  attrition_rate :: fval

definition group_rows :: "(employee \<Rightarrow> 'k option) \<Rightarrow> employee list \<Rightarrow> 'k \<Rightarrow> employee list" where
  "group_rows key df g = filter (\<lambda>r. key r = Some g) df"

definition agg_group :: "(employee \<Rightarrow> 'k option) \<Rightarrow> employee list \<Rightarrow> 'k \<Rightarrow> 'k group_row" where
  "agg_group key df g =
     (let rows = group_rows key df g;
          n = length (filter (\<lambda>r. employee_id r \<noteq> None) rows);
          d = length (filter (\<lambda>r. attrition r = Some ''Yes'') rows)
      in \<lparr>label = g, total_employees = n, departed = d, attrition_rate = py_rate d n\<rparr>)"

text \<open>
  \<open>df.groupby(col)\<close> on an ordinary column: one group for each value that occurs, in
  sorted order; rows whose key is missing belong to no group (\<open>dropna=True\<close>).
\<close>

definition group_keys :: "(employee \<Rightarrow> 'k option) \<Rightarrow> employee list \<Rightarrow> ('k::linorder) list" where
  "group_keys key df = sort (remdups (List.map_filter key df))"

definition groupby_agg :: "(employee \<Rightarrow> 'k option) \<Rightarrow> employee list \<Rightarrow> ('k::linorder) group_row list" where
  "groupby_agg key df = map (agg_group key df) (group_keys key df)"

text \<open>
  \<open>df.groupby(col)\<close> on a categorical column, which is what \<open>pd.cut\<close> returns: with the
  default \<open>observed=False\<close> of the pandas releases the source is written for, the result
  has one row for every category, in the order of the categories, whether or not a row of
  the table falls into it. The source neither passes \<open>observed=True\<close> nor removes a row
  from the result afterwards.
\<close>

definition groupby_agg_categorical ::
  "'k list \<Rightarrow> (employee \<Rightarrow> 'k option) \<Rightarrow> employee list \<Rightarrow> 'k group_row list" where
  "groupby_agg_categorical cats key df = map (agg_group key df) cats"

text \<open>
  \<open>sort_values('attrition_rate', ascending=False)\<close>: highest rate first, NaN last. The
  order among equal rates is that of a stable sort; no statement below depends on it.
\<close>

definition rate_key :: "fval \<Rightarrow> nat \<times> real" where
  "rate_key v = (case v of PosInf \<Rightarrow> (0, 0) | Finite x \<Rightarrow> (1, - x) | NaN \<Rightarrow> (2, 0))"

definition sort_by_rate :: "'k group_row list \<Rightarrow> 'k group_row list" where
  "sort_by_rate t = sort_key (\<lambda>g. rate_key (attrition_rate g)) t"

text \<open>
  \<open>calculate_attrition_rates\<close>: the overall rate is a division of two Python integers,
  which raises on an empty table; then the department table.
\<close>

definition calculate_attrition_rates :: "employee list \<Rightarrow> py_error + (real \<times> string group_row list)" where
  "calculate_attrition_rates df =
     (let total = length df;
          departed_employees = length (filter (\<lambda>r. attrition r = Some ''Yes'') df)
      in if total = 0 then Inl ZeroDivisionError
         else Inr (real departed_employees / real total * 100,
                   sort_by_rate (groupby_agg department df)))"


text \<open>
  \<open>analyze_tenure_impact\<close>: the tenure-group table (its column of mean incomes is left
  out); the rate of the first three years is again a division of Python integers and
  raises when no row has \<open>years_at_company <= 3\<close>.
\<close>

definition analyze_tenure_impact :: "employee list \<Rightarrow> py_error + string group_row list" where
  "analyze_tenure_impact df =
     (let tenure_attrition = groupby_agg_categorical tenure_group_labels analysis_tenure_group df;
          early_tenure = filter (\<lambda>r. le_num (years_at_company r) 3) df
      in if length early_tenure = 0 then Inl ZeroDivisionError else Inr tenure_attrition)"

text \<open>A second row, a departed employee with the identifier 2, for examples.\<close>

definition second_row :: employee where
  "second_row = example_row\<lparr>employee_id := Some 2, attrition := Some ''Yes''\<rparr>"

section \<open>Cleaning (data\_preprocessing.py, clean\_employee\_data)\<close>

subsection \<open>Python's string methods\<close>

text \<open>
  The functions below are Python's on ASCII text: \<open>str.isspace\<close> holds for the codes 9
  to 13 and 28 to 32, and the cased characters are the 26 upper-case and the 26
  lower-case letters. Of the characters beyond ASCII the model knows one, the capital I
  with dot above (U+0130, the bytes C4 B0): it is a cased letter, its upper-case and title
  case are itself, and Python lower-cases it to two characters, the letter i and the
  combining dot above (U+0307, the bytes CC 87), which is not cased. Every other byte beyond
  ASCII passes through the functions as a character that is neither cased nor white space;
  Python treats only some characters so. The general statements about text below are
  therefore made for ASCII text.
\<close>

definition is_ascii :: "char \<Rightarrow> bool" where
  "is_ascii c = ((of_char c :: nat) < 128)"

definition is_space :: "char \<Rightarrow> bool" where
  "is_space c = ((9 \<le> (of_char c :: nat) \<and> (of_char c :: nat) \<le> 13)
                 \<or> (28 \<le> (of_char c :: nat) \<and> (of_char c :: nat) \<le> 32))"

definition is_upper :: "char \<Rightarrow> bool" where
  "is_upper c = (65 \<le> (of_char c :: nat) \<and> (of_char c :: nat) \<le> 90)"

definition is_lower :: "char \<Rightarrow> bool" where
  "is_lower c = (97 \<le> (of_char c :: nat) \<and> (of_char c :: nat) \<le> 122)"

definition is_cased :: "char \<Rightarrow> bool" where
  "is_cased c = (is_upper c \<or> is_lower c)"

definition to_upper :: "char \<Rightarrow> char" where
  "to_upper c = (if is_lower c then char_of ((of_char c :: nat) - 32) else c)"

definition to_lower :: "char \<Rightarrow> char" where
  "to_lower c = (if is_upper c then char_of ((of_char c :: nat) + 32) else c)"

definition capital_I_dot :: string where
  "capital_I_dot = [CHR 0xC4, CHR 0xB0]"

definition small_i_dot :: string where
  "small_i_dot = [CHR ''i'', CHR 0xCC, CHR 0x87]"

text \<open>\<open>str.strip()\<close>: the white space at both ends goes.\<close>

definition strip :: "string \<Rightarrow> string" where
  "strip s = rev (dropWhile is_space (rev (dropWhile is_space s)))"

text \<open>
  \<open>str.title()\<close>, as CPython runs it: a character that follows a cased character is
  lower-cased, any other character is title-cased (upper-cased, in ASCII).
\<close>

fun title_from :: "bool \<Rightarrow> string \<Rightarrow> string" where
  "title_from previous_is_cased [] = []"
| "title_from previous_is_cased [c] = [if previous_is_cased then to_lower c else to_upper c]"
| "title_from previous_is_cased (c # d # cs) =
     (if c = CHR 0xC4 \<and> d = CHR 0xB0
      then (if previous_is_cased then small_i_dot else capital_I_dot) @ title_from True cs
      else (if previous_is_cased then to_lower c else to_upper c)
           # title_from (is_cased c) (d # cs))"

definition title :: "string \<Rightarrow> string" where
  "title s = title_from False s"

text \<open>\<open>str.upper()\<close> and \<open>str.lower()\<close>\<close>

definition upper :: "string \<Rightarrow> string" where
  "upper s = map to_upper s"

fun lower :: "string \<Rightarrow> string" where
  "lower [] = []"
| "lower [c] = [to_lower c]"
| "lower (c # d # cs) =
     (if c = CHR 0xC4 \<and> d = CHR 0xB0 then small_i_dot @ lower cs
      else to_lower c # lower (d # cs))"

text \<open>\<open>str.capitalize()\<close>: the first character title-cased, the others lower-cased.\<close>

definition capitalize :: "string \<Rightarrow> string" where
  "capitalize s = (case s of [] \<Rightarrow> [] | c # cs \<Rightarrow> to_upper c # lower cs)"

subsection \<open>Text columns\<close>

text \<open>\<open>astype(str)\<close> writes a missing value as the text \<open>nan\<close>.\<close>

definition astype_str :: "textcell \<Rightarrow> string" where
  "astype_str c = (case c of None \<Rightarrow> ''nan'' | Some s \<Rightarrow> s)"

text \<open>\<open>df[col].astype(str).str.strip().str.title()\<close>\<close>

definition standardize :: "textcell \<Rightarrow> string" where
  "standardize c = title (strip (astype_str c))"

definition dept_mapping :: "(string \<times> string) list" where
  "dept_mapping =
     [(''It'', ''IT''), (''Hr'', ''HR''), (''R&D'', ''R&D''),
      (''Research & Development'', ''R&D'')]"

text \<open>\<open>Series.replace(dict)\<close>: a value that is a key is replaced, any other stays.\<close>

definition replace_values :: "(string \<times> string) list \<Rightarrow> string \<Rightarrow> string" where
  "replace_values m s = (case map_of m s of None \<Rightarrow> s | Some t \<Rightarrow> t)"

text \<open>
  The loop over \<open>text_columns\<close>: every column is standardized; \<open>gender\<close> is then
  upper-cased, \<open>attrition\<close> capitalized and \<open>department\<close> mapped. Each step works on one
  column, cell by cell, so the loop is a map over the rows. The table of the model has
  every column of the record, so each \<open>if col in df.columns\<close> of the source holds.
\<close>

definition clean_text_columns :: "employee \<Rightarrow> employee" where
  "clean_text_columns r =
     r\<lparr>first_name := Some (standardize (first_name r)),
       last_name := Some (standardize (last_name r)),
       department := Some (replace_values dept_mapping (standardize (department r))),
       job_role := Some (standardize (job_role r)),
       gender := Some (upper (standardize (gender r))),
       education_level := Some (standardize (education_level r)),
       marital_status := Some (standardize (marital_status r)),
       attrition := Some (capitalize (standardize (attrition r))),
       exit_reason := Some (standardize (exit_reason r))\<rparr>"




subsection \<open>Duplicates, outliers, dates, missing values\<close>

text \<open>
  \<open>df.drop_duplicates(subset=['employee_id'])\<close> keeps the first row of every identifier;
  missing identifiers count as equal to each other.
\<close>

fun drop_duplicates_from :: "int option list \<Rightarrow> employee list \<Rightarrow> employee list" where
  "drop_duplicates_from seen [] = []"
| "drop_duplicates_from seen (r # rs) =
     (if employee_id r \<in> set seen then drop_duplicates_from seen rs
      else r # drop_duplicates_from (employee_id r # seen) rs)"

definition drop_duplicates :: "employee list \<Rightarrow> employee list" where
  "drop_duplicates df = drop_duplicates_from [] df"

text \<open>
  One round of the loop over \<open>numeric_validations\<close>, for the column read by \<open>col\<close> and
  written by \<open>col_update\<close>: when the column has an outlier, the values below \<open>min_val\<close>
  become \<open>min_val\<close>, then the values above \<open>max_val\<close> become \<open>max_val\<close>.
\<close>

definition cap_low :: "real \<Rightarrow> numcell \<Rightarrow> numcell" where
  "cap_low min_val c = (if lt_num c min_val then Some min_val else c)"

definition cap_high :: "real \<Rightarrow> numcell \<Rightarrow> numcell" where
  "cap_high max_val c = (if gt_num c max_val then Some max_val else c)"

definition cap_column ::
  "(employee \<Rightarrow> numcell) \<Rightarrow> ((numcell \<Rightarrow> numcell) \<Rightarrow> employee \<Rightarrow> employee)
     \<Rightarrow> real \<Rightarrow> real \<Rightarrow> employee list \<Rightarrow> employee list" where
  "cap_column col col_update min_val max_val df =
     (if \<exists>r\<in>set df. lt_num (col r) min_val \<or> gt_num (col r) max_val
      then map (col_update (cap_high max_val)) (map (col_update (cap_low min_val)) df)
      else df)"

text \<open>
  \<open>pd.to_datetime(..., errors='coerce')\<close>: text that the parser reads becomes a
  timestamp, any other text and a missing value become NaT, a timestamp stays. The
  parser of pandas is a parameter of the model.
\<close>

definition to_datetime :: "(string \<Rightarrow> int option) \<Rightarrow> date_cell \<Rightarrow> date_cell" where
  "to_datetime parse c =
     (case c of
        RawDate None \<Rightarrow> NaT
      | RawDate (Some s) \<Rightarrow> (case parse s of None \<Rightarrow> NaT | Some t \<Rightarrow> Timestamp t)
      | Timestamp t \<Rightarrow> Timestamp t
      | NaT \<Rightarrow> NaT)"

text \<open>
  \<open>Series.median()\<close> skips the missing values: the middle one of the sorted values, the
  mean of the two middle ones for an even count, NaN when there is no value.
\<close>

definition median :: "real list \<Rightarrow> numcell" where
  "median xs =
     (let s = sort xs; n = length s
      in if n = 0 then None
         else if odd n then Some (s ! (n div 2))
         else Some ((s ! (n div 2 - 1) + s ! (n div 2)) / 2))"

definition column_median :: "(employee \<Rightarrow> numcell) \<Rightarrow> employee list \<Rightarrow> numcell" where
  "column_median col df = median (List.map_filter col df)"

definition fillna :: "numcell \<Rightarrow> numcell \<Rightarrow> numcell" where
  "fillna fill_val c = (case c of None \<Rightarrow> fill_val | Some v \<Rightarrow> Some v)"

definition fill_column ::
  "(employee \<Rightarrow> numcell) \<Rightarrow> ((numcell \<Rightarrow> numcell) \<Rightarrow> employee \<Rightarrow> employee)
     \<Rightarrow> numcell \<Rightarrow> employee list \<Rightarrow> employee list" where
  "fill_column col col_update fill_val df =
     (if \<exists>r\<in>set df. col r = None then map (col_update (fillna fill_val)) df else df)"

text \<open>
  \<open>clean_employee_data\<close>, step by step; \<open>None\<close> when no employee table is loaded. The
  four fill values are computed before the first column is filled, as in the source.
\<close>

definition clean_employee_data ::
  "(string \<Rightarrow> int option) \<Rightarrow> employee list option \<Rightarrow> employee list option" where
  "clean_employee_data parse employee_data =
     (case employee_data of
        None \<Rightarrow> None
      | Some raw \<Rightarrow>
          (let df = drop_duplicates raw;
               df = map clean_text_columns df;
               df = cap_column age age_update 18 70 df;
               df = cap_column monthly_income monthly_income_update 1000 20000 df;
               df = cap_column years_at_company years_at_company_update 0 50 df;
               df = cap_column performance_rating performance_rating_update 1 5 df;
               df = cap_column job_satisfaction job_satisfaction_update 1 5 df;
               df = cap_column work_life_balance work_life_balance_update 1 5 df;
               df = cap_column distance_from_home distance_from_home_update 0 100 df;
               df = map (attrition_date_update (to_datetime parse)) df;
               fill_js = column_median job_satisfaction df;
               fill_wlb = column_median work_life_balance df;
               fill_perf = column_median performance_rating df;
               fill_dist = column_median distance_from_home df;
               df = fill_column job_satisfaction job_satisfaction_update fill_js df;
               df = fill_column work_life_balance work_life_balance_update fill_wlb df;
               df = fill_column performance_rating performance_rating_update fill_perf df;
               df = fill_column distance_from_home distance_from_home_update fill_dist df
           in Some df))"

subsection \<open>The cleaned table, row by row\<close>

text \<open>
  The same computation written as maps over the rows, for the proofs: the two capping
  steps of a cell, the seven capped columns of a row, the table before the missing values
  are filled, and the four filled columns of a row.
\<close>

definition cap_cell :: "real \<Rightarrow> real \<Rightarrow> numcell \<Rightarrow> numcell" where
  "cap_cell min_val max_val c = cap_high max_val (cap_low min_val c)"

definition cap_row :: "employee \<Rightarrow> employee" where
  "cap_row r =
     r\<lparr>age := cap_cell 18 70 (age r),
       monthly_income := cap_cell 1000 20000 (monthly_income r),
       years_at_company := cap_cell 0 50 (years_at_company r),
       performance_rating := cap_cell 1 5 (performance_rating r),
       job_satisfaction := cap_cell 1 5 (job_satisfaction r),
       work_life_balance := cap_cell 1 5 (work_life_balance r),
       distance_from_home := cap_cell 0 100 (distance_from_home r)\<rparr>"

definition prefill_row :: "(string \<Rightarrow> int option) \<Rightarrow> employee \<Rightarrow> employee" where
  "prefill_row parse r =
     attrition_date_update (to_datetime parse) (cap_row (clean_text_columns r))"

definition prefill_table :: "(string \<Rightarrow> int option) \<Rightarrow> employee list \<Rightarrow> employee list" where
  "prefill_table parse raw = map (prefill_row parse) (drop_duplicates raw)"

definition fill_row :: "numcell \<Rightarrow> numcell \<Rightarrow> numcell \<Rightarrow> numcell \<Rightarrow> employee \<Rightarrow> employee" where
  "fill_row fill_js fill_wlb fill_perf fill_dist r =
     r\<lparr>job_satisfaction := fillna fill_js (job_satisfaction r),
       work_life_balance := fillna fill_wlb (work_life_balance r),
       performance_rating := fillna fill_perf (performance_rating r),
       distance_from_home := fillna fill_dist (distance_from_home r)\<rparr>"

text \<open>
  What the statements about the cleaned table say of a cell, a row and a column: a cell
  is missing or inside its bounds; the seven validated cells of a row are; a column has
  a value in every row or in none.
\<close>

definition in_bounds :: "real \<Rightarrow> real \<Rightarrow> numcell \<Rightarrow> bool" where
  "in_bounds lo hi c = (case c of None \<Rightarrow> True | Some v \<Rightarrow> lo \<le> v \<and> v \<le> hi)"

definition numeric_fields_valid :: "employee \<Rightarrow> bool" where
  "numeric_fields_valid r =
     (in_bounds 18 70 (age r) \<and> in_bounds 1000 20000 (monthly_income r)
      \<and> in_bounds 0 50 (years_at_company r) \<and> in_bounds 1 5 (performance_rating r)
      \<and> in_bounds 1 5 (job_satisfaction r) \<and> in_bounds 1 5 (work_life_balance r)
      \<and> in_bounds 0 100 (distance_from_home r))"

definition all_or_none :: "(employee \<Rightarrow> numcell) \<Rightarrow> employee list \<Rightarrow> bool" where
  "all_or_none col df = ((\<forall>r\<in>set df. col r \<noteq> None) \<or> (\<forall>r\<in>set df. col r = None))"

text \<open>The value of a cell clamped to its bounds, as the specification words it.\<close>

definition clamp :: "real \<Rightarrow> real \<Rightarrow> numcell \<Rightarrow> numcell" where
  "clamp lo hi c = map_option (\<lambda>v. max lo (min hi v)) c"

text \<open>
  A raw table for examples: an under-age employee with an income and a job satisfaction
  above their ranges and no work-life balance, a second employee, and a row that repeats
  the identifier of the first.
\<close>

definition raw_row1 :: employee where
  "raw_row1 =
     example_row\<lparr>first_name := Some '' ann-marie '', department := Some ''it'',
        gender := Some '' f'', attrition := Some ''NO'', age := Some 17,
        monthly_income := Some 25000, job_satisfaction := Some 7,
        work_life_balance := None, distance_from_home := Some 3,
        attrition_date := RawDate None\<rparr>"

definition raw_row2 :: employee where
  "raw_row2 =
     second_row\<lparr>department := Some ''research & development'', age := Some 45,
        monthly_income := None, work_life_balance := Some 4, distance_from_home := Some 120,
        attrition_date := RawDate (Some ''2023-01-05'')\<rparr>"

definition raw_table :: "employee list" where
  "raw_table = [raw_row1, raw_row2, example_row\<lparr>age := Some 30\<rparr>]"

section \<open>Properties of the risk score\<close>

lemma risk_score_cases:
  "calculate_risk_score r \<in> {0, 1, 2, 3, 4, 5, 6, 7, 8, 9, 10}"
  by (simp add: calculate_risk_score_def Let_def)

lemma in_high_risk_iff:
  "(r, s) \<in> set (identify_high_risk_employees df) \<longleftrightarrow>
     r \<in> set df \<and> attrition r = Some ''No'' \<and> s = calculate_risk_score r \<and> 6 \<le> s"
  by (auto simp: identify_high_risk_employees_def with_risk_score_def current_employees_def)

text \<open>
  C1. For a currently employed row whose two satisfaction ratings, tenure and performance
  rating are present and in their valid ranges, the score of the code is the sum the
  specification writes; it lies in [0,12]; and the row is in the high-risk list of its
  table exactly when its score is at least 6.
\<close>

theorem risk_score_matches_spec:
  assumes "r \<in> set df" and "attrition r = Some ''No''"
    and "job_satisfaction r = Some js" and "1 \<le> js" and "js \<le> 5"
    and "work_life_balance r = Some wlb" and "1 \<le> wlb" and "wlb \<le> 5"
    and "years_at_company r = Some yrs" and "0 \<le> yrs" and "yrs \<le> 50"
    and "performance_rating r = Some perf" and "1 \<le> perf" and "perf \<le> 5"
  shows "calculate_risk_score r = spec_risk_score js wlb yrs perf
       \<and> 0 \<le> calculate_risk_score r \<and> calculate_risk_score r \<le> 12
       \<and> ((r, calculate_risk_score r) \<in> set (identify_high_risk_employees df)
            \<longleftrightarrow> 6 \<le> calculate_risk_score r)"
proof -
  have eq: "calculate_risk_score r = spec_risk_score js wlb yrs perf"
    using assms(3,6,9,12)
    by (simp add: calculate_risk_score_def spec_risk_score_def Let_def
        le_num_def lt_num_def ge_num_def eq_num_def)
  have rng: "0 \<le> calculate_risk_score r \<and> calculate_risk_score r \<le> 12"
    using risk_score_cases [of r] by auto
  have cls: "(r, calculate_risk_score r) \<in> set (identify_high_risk_employees df)
      \<longleftrightarrow> 6 \<le> calculate_risk_score r"
    using assms(1,2) by (simp add: in_high_risk_iff)
  from eq rng cls show ?thesis by simp
qed

theorem risk_score_matches_spec_witness:
  "calculate_risk_score example_row = 9
   \<and> spec_risk_score 1 1 2 5 = 9
   \<and> (example_row, 9) \<in> set (identify_high_risk_employees [example_row])"
proof -
  have ex: "example_row \<in> set [example_row]" by simp
  have v: "attrition example_row = Some ''No''"
    "job_satisfaction example_row = Some 1" "work_life_balance example_row = Some 1"
    "years_at_company example_row = Some 2" "performance_rating example_row = Some 5"
    by (simp_all add: example_row_def)
  have s: "spec_risk_score 1 1 2 5 = 9" by (simp add: spec_risk_score_def)
  have "calculate_risk_score example_row = spec_risk_score 1 1 2 5
       \<and> 0 \<le> calculate_risk_score example_row \<and> calculate_risk_score example_row \<le> 12
       \<and> ((example_row, calculate_risk_score example_row)
              \<in> set (identify_high_risk_employees [example_row])
            \<longleftrightarrow> 6 \<le> calculate_risk_score example_row)"
    by (rule risk_score_matches_spec [OF ex v(1) v(2) _ _ v(3) _ _ v(4) _ _ v(5)]) simp_all
  then have a: "calculate_risk_score example_row = spec_risk_score 1 1 2 5"
    and b: "(example_row, calculate_risk_score example_row)
              \<in> set (identify_high_risk_employees [example_row])
            \<longleftrightarrow> 6 \<le> calculate_risk_score example_row"
    by blast+
  from a s have c: "calculate_risk_score example_row = 9" by simp
  from b have "(example_row, 9) \<in> set (identify_high_risk_employees [example_row])"
    unfolding c by simp
  with c s show ?thesis by simp
qed

text \<open>
  C10. Whatever the row holds (missing values included), the score of the code is at
  most 10 = 3 + 3 + 3 + 1, so 11 and 12 are never reached; 10 is reached.
\<close>

theorem risk_score_at_most_10:
  "calculate_risk_score r \<le> 10 \<and> calculate_risk_score r \<noteq> 11 \<and> calculate_risk_score r \<noteq> 12
   \<and> calculate_risk_score (example_row\<lparr>years_at_company := Some 0\<rparr>) = 10"
proof -
  have "calculate_risk_score r \<le> 10"
    using risk_score_cases [of r] by auto
  moreover have "calculate_risk_score (example_row\<lparr>years_at_company := Some 0\<rparr>) = 10"
    by (simp add: calculate_risk_score_def example_row_def Let_def
        le_num_def lt_num_def ge_num_def eq_num_def)
  ultimately show ?thesis by simp
qed

section \<open>Properties of feature engineering\<close>

lemma high_risk_flag_row: "high_risk_employee (features_of r) = spec_high_risk_flag r"
  by (cases "job_satisfaction r"; cases "work_life_balance r";
      cases "years_at_company r"; cases "performance_rating r")
     (simp_all add: features_of_def fe_high_risk_employee_def spec_high_risk_flag_def
        le_num_def ge_num_def)

text \<open>
  Feature engineering raises on the one-row table of the example: there is no income to
  take quartiles of, and one income alone would give five equal edges.
\<close>

lemma engineer_features_raises:
  "engineer_features [example_row] = Inl ValueError"
  "engineer_features [example_row\<lparr>monthly_income := Some 3000\<rparr>] = Inl ValueError"
  by (simp_all add: engineer_features_def qcut_edges_def quantile_edge_def example_row_def
      Let_def)

text \<open>
  C4. The boolean flag \<open>high_risk_employee\<close> that feature engineering computes for a row
  is true exactly when one of the four conditions holds: job satisfaction at most 2,
  work-life balance at most 2, tenure between 1 and 3 (both included), performance rating
  at least 4. A missing value satisfies none of them. Whenever \<open>engineer_features\<close>
  returns a table, it has the rows of its input in their order and its flag column is the
  condition mapped over them. The example row has the flag.
\<close>

theorem high_risk_flag_iff:
  "high_risk_employee (features_of row) = spec_high_risk_flag row
   \<and> (\<forall>t. engineer_features df = Inr t \<longrightarrow>
         map fst t = df
         \<and> map (\<lambda>p. high_risk_employee (fst (snd p))) t = map spec_high_risk_flag df)
   \<and> high_risk_employee (features_of example_row)"
proof -
  have tbl: "map fst t = df
      \<and> map (\<lambda>p. high_risk_employee (fst (snd p))) t = map spec_high_risk_flag df"
    if "engineer_features df = Inr t" for t
  proof -
    from that obtain edges where
      "t = map (\<lambda>row. (row, features_of row, qcut_label edges (monthly_income row))) df"
      by (auto simp: engineer_features_def split: sum.splits if_splits)
    then show ?thesis by (simp add: comp_def high_risk_flag_row)
  qed
  have "spec_high_risk_flag example_row"
    by (simp add: spec_high_risk_flag_def example_row_def)
  with tbl show ?thesis by (simp add: high_risk_flag_row)
qed

theorem high_risk_flag_iff_witness:
  "\<exists>t. engineer_features feature_table = Inr t
     \<and> map fst t = feature_table
     \<and> map (\<lambda>p. high_risk_employee (fst (snd p))) t = [True, False]
     \<and> map (\<lambda>p. snd (snd p)) t = [Some ''Q1_Low'', Some ''Q4_Top'']"
proof -
  have e: "qcut_edges (map monthly_income feature_table) = Inr [3000, 3500, 4000, 4500, 5000]"
    by (simp add: qcut_edges_def quantile_edge_def feature_table_def settled_row_def
        example_row_def Let_def)
  define t where "t = map (\<lambda>row. (row, features_of row,
      qcut_label [3000, 3500, 4000, 4500, 5000] (monthly_income row))) feature_table"
  have r: "engineer_features feature_table = Inr t"
    by (simp add: engineer_features_def e t_def)
       (simp add: feature_table_def settled_row_def)
  have q: "map (\<lambda>p. snd (snd p)) t = [Some ''Q1_Low'', Some ''Q4_Top'']"
    by (simp add: t_def feature_table_def settled_row_def example_row_def qcut_label_def
        salary_quartile_labels_def)
  have s: "map spec_high_risk_flag feature_table = [True, False]"
    by (simp add: feature_table_def settled_row_def example_row_def spec_high_risk_flag_def)
  from high_risk_flag_iff [of example_row feature_table] r
  have "map fst t = feature_table
      \<and> map (\<lambda>p. high_risk_employee (fst (snd p))) t = map spec_high_risk_flag feature_table"
    by blast
  with r q s show ?thesis by (intro exI [of _ t]) simp
qed

text \<open>
  C7. For a row whose job satisfaction, work-life balance and performance rating are
  present and lie in [1,5], the engagement score is
  \<open>job_satisfaction*0.4 + work_life_balance*0.3 + performance_rating*0.3\<close> and lies in
  [1,5], and the satisfaction risk score is
  \<open>(5 - job_satisfaction)*2 + (5 - work_life_balance)*1.5\<close> and lies in [0,14.5]
  (its largest value is 14, at both ratings 1). The arithmetic is the exact one of the
  cell model.
\<close>

theorem engagement_and_risk_score_ranges:
  assumes "job_satisfaction row = Some js" and "1 \<le> js" and "js \<le> 5"
    and "work_life_balance row = Some wlb" and "1 \<le> wlb" and "wlb \<le> 5"
    and "performance_rating row = Some perf" and "1 \<le> perf" and "perf \<le> 5"
  shows "(\<exists>e. engagement_score (features_of row) = Some e
            \<and> e = js * 0.4 + wlb * 0.3 + perf * 0.3 \<and> 1 \<le> e \<and> e \<le> 5)
       \<and> (\<exists>s. satisfaction_risk_score (features_of row) = Some s
            \<and> s = (5 - js) * 2 + (5 - wlb) * 1.5 \<and> 0 \<le> s \<and> s \<le> 14.5)"
proof -
  have e: "engagement_score (features_of row) = Some (js * 0.4 + wlb * 0.3 + perf * 0.3)"
    using assms(1,4,7)
    by (simp add: features_of_def fe_engagement_score_def add_num_def mul_num_def)
  have s: "satisfaction_risk_score (features_of row) = Some ((5 - js) * 2 + (5 - wlb) * 1.5)"
    using assms(1,4)
    by (simp add: features_of_def fe_satisfaction_risk_score_def add_num_def mul_num_def
        rsub_num_def)
  have eb: "1 \<le> js * 0.4 + wlb * 0.3 + perf * 0.3 \<and> js * 0.4 + wlb * 0.3 + perf * 0.3 \<le> 5"
    using assms(2,3,5,6,8,9) by (simp add: field_simps)
  have sb: "0 \<le> (5 - js) * 2 + (5 - wlb) * 1.5 \<and> (5 - js) * 2 + (5 - wlb) * 1.5 \<le> 14.5"
    using assms(2,3,5,6) by (simp add: field_simps)
  from e s eb sb show ?thesis by blast
qed

theorem engagement_and_risk_score_ranges_witness:
  "engagement_score (features_of example_row) = Some 2.2
   \<and> satisfaction_risk_score (features_of example_row) = Some 14"
proof -
  have v: "job_satisfaction example_row = Some 1" "work_life_balance example_row = Some 1"
    "performance_rating example_row = Some 5"
    by (simp_all add: example_row_def)
  have "(\<exists>e. engagement_score (features_of example_row) = Some e
            \<and> e = 1 * 0.4 + 1 * 0.3 + 5 * 0.3 \<and> 1 \<le> e \<and> e \<le> 5)
       \<and> (\<exists>s. satisfaction_risk_score (features_of example_row) = Some s
            \<and> s = (5 - 1) * 2 + (5 - 1) * 1.5 \<and> 0 \<le> s \<and> s \<le> 14.5)"
    by (rule engagement_and_risk_score_ranges [OF v(1) _ _ v(2) _ _ v(3)]) simp_all
  then show ?thesis by auto
qed

text \<open>
  C6, as the specification states it, fails on \<open>engineer_features\<close>: the specification
  puts the ages 45 and 55 into one bucket (40,100] and the tenures 4 and 6 into one bucket
  (3,7]; feature engineering separates both pairs.
\<close>

theorem feature_buckets_counterexample:
  "spec_age_group (Some 45) = spec_age_group (Some 55)
   \<and> age_group (features_of (example_row\<lparr>age := Some 45\<rparr>))
       \<noteq> age_group (features_of (example_row\<lparr>age := Some 55\<rparr>))
   \<and> spec_tenure_interval (Some 4) = spec_tenure_interval (Some 6)
   \<and> tenure_group (features_of (example_row\<lparr>years_at_company := Some 4\<rparr>))
       \<noteq> tenure_group (features_of (example_row\<lparr>years_at_company := Some 6\<rparr>))"
  by (simp add: spec_age_group_def spec_tenure_interval_def features_of_def fe_age_group_def
      fe_tenure_group_def cut_cell_def)

text \<open>
  C6, amended. Feature engineering buckets the age into the six right-closed intervals
  (0,25], (25,30], (30,35], (35,40], (40,50], (50,100] with the labels Under\_25, 25\_29,
  30\_34, 35\_39, 40\_49, Over\_50, and the tenure into (0,1], (1,3], (3,5], (5,10],
  (10,100] with the labels New\_0\_1, Early\_1\_3, Mid\_3\_5, Senior\_5\_10,
  Veteran\_10plus. The five age intervals (0,25], (25,30], (30,35], (35,40], (40,100] and
  the five tenure intervals (0,1], (1,3], (3,7], (7,12], (12,100] are those of the
  analysis step, whose labels are 'Under 25', '25-30', '31-35', '36-40', 'Over 40' and
  '<1 year', '1-3 years', '4-7 years', '8-12 years', '>12 years'. A value outside every
  interval, such as 0, gets no bucket.
\<close>

theorem feature_and_analysis_buckets:
  "age_group (features_of (row\<lparr>age := Some a\<rparr>)) =
     (if a \<le> 0 then None else if a \<le> 25 then Some ''Under_25''
      else if a \<le> 30 then Some ''25_29'' else if a \<le> 35 then Some ''30_34''
      else if a \<le> 40 then Some ''35_39'' else if a \<le> 50 then Some ''40_49''
      else if a \<le> 100 then Some ''Over_50'' else None)
   \<and> tenure_group (features_of (row\<lparr>years_at_company := Some y\<rparr>)) =
     (if y \<le> 0 then None else if y \<le> 1 then Some ''New_0_1''
      else if y \<le> 3 then Some ''Early_1_3'' else if y \<le> 5 then Some ''Mid_3_5''
      else if y \<le> 10 then Some ''Senior_5_10''
      else if y \<le> 100 then Some ''Veteran_10plus'' else None)
   \<and> analysis_age_group (row\<lparr>age := Some a\<rparr>) =
     (if a \<le> 0 then None else if a \<le> 25 then Some ''Under 25''
      else if a \<le> 30 then Some ''25-30'' else if a \<le> 35 then Some ''31-35''
      else if a \<le> 40 then Some ''36-40''
      else if a \<le> 100 then Some ''Over 40'' else None)
   \<and> analysis_tenure_group (row\<lparr>years_at_company := Some y\<rparr>) =
     (if y \<le> 0 then None else if y \<le> 1 then Some ''<1 year''
      else if y \<le> 3 then Some ''1-3 years'' else if y \<le> 7 then Some ''4-7 years''
      else if y \<le> 12 then Some ''8-12 years''
      else if y \<le> 100 then Some ''>12 years'' else None)"
  by (simp add: features_of_def fe_age_group_def fe_tenure_group_def analysis_age_group_def
      analysis_tenure_group_def age_group_labels_def tenure_group_labels_def cut_cell_def)

section \<open>Properties of the join\<close>

lemma matches_unique:
  "distinct (map fst right) \<Longrightarrow> length (matches right k) \<le> 1"
  unfolding matches_def
proof (induction right)
  case Nil
  show ?case by simp
next
  case (Cons r right)
  have "filter (\<lambda>r. fst r = k) right = []" if "fst r = k"
  proof -
    from Cons.prems have nin: "fst r \<notin> fst ` set right" by simp
    have "\<forall>x\<in>set right. fst x \<noteq> k"
    proof
      fix x assume "x \<in> set right"
      then have "fst x \<in> fst ` set right" by (rule imageI)
      with nin that show "fst x \<noteq> k" by metis
    qed
    then show ?thesis by (simp add: filter_empty_conv)
  qed
  with Cons show ?case by auto
qed

lemma merge_row_unique:
  assumes "distinct (map fst right)"
  shows "map fst (merge_row key right l) = [l]"
proof -
  have "length (matches right (key l)) \<le> 1" using assms by (rule matches_unique)
  then show ?thesis
    by (cases "matches right (key l)") (auto simp: merge_row_def split: list.splits)
qed

lemma left_merge_unique:
  assumes "distinct (map fst right)"
  shows "map fst (left_merge key left right) = left"
  by (induction left) (simp_all add: left_merge_def merge_row_unique [OF assms])

lemma merge_step_unique:
  "unique_ids t \<Longrightarrow>
     map fst (case t of None \<Rightarrow> map (\<lambda>m. (m, None)) ms | Some rows \<Rightarrow> left_merge key ms rows) = ms"
  by (cases t) (simp_all add: unique_ids_def left_merge_unique comp_def)

lemma merge_row_joined:
  "merge_row key rows l = map (\<lambda>v. (l, v)) (joined_values (Some rows) (key l))"
  by (simp add: merge_row_def joined_values_def comp_def split: list.split)

lemma merge_step_joined:
  "(case t of None \<Rightarrow> map (\<lambda>m. (m, None)) ms | Some rows \<Rightarrow> left_merge key ms rows)
     = concat (map (\<lambda>m. map (\<lambda>v. (m, v)) (joined_values t (key m))) ms)"
proof (cases t)
  case None
  then show ?thesis by (induction ms) (simp_all add: joined_values_def)
next
  case (Some rows)
  have "merge_row key rows = (\<lambda>m. map (\<lambda>v. (m, v)) (joined_values (Some rows) (key m)))"
    by (rule ext) (rule merge_row_joined)
  with Some show ?thesis by (simp add: left_merge_def)
qed

lemma concat_map_concat_map:
  "concat (map h (concat (map g xs))) = concat (map (\<lambda>x. concat (map h (g x))) xs)"
  by (induction xs) simp_all

lemma length_joined_values: "length (joined_values t k) = max 1 (match_count t k)"
proof (cases t)
  case None
  then show ?thesis by (simp add: joined_values_def match_count_def)
next
  case (Some rows)
  show ?thesis
  proof (cases "matches rows k")
    case Nil
    with Some show ?thesis by (simp add: joined_values_def match_count_def)
  next
    case (Cons m ms)
    with Some show ?thesis by (simp add: joined_values_def match_count_def)
  qed
qed

lemma concat_replicate_const:
  "concat (replicate m (replicate n e)) = replicate (m * n) e"
  by (induction m) (simp_all add: replicate_add)

lemma merged_content:
  "\<exists>merged. merge_datasets (Some employees) perf ex = Some merged
     \<and> merged =
         concat (map (\<lambda>e. concat (map (\<lambda>p. map (\<lambda>x. ((e, p), x))
                                              (joined_values ex (employee_id e)))
                                    (joined_values perf (employee_id e))))
                     employees)"
proof -
  have "merge_datasets (Some employees) perf ex =
      Some (concat (map (\<lambda>m. map (\<lambda>v. (m, v)) (joined_values ex (employee_id (fst m))))
              (concat (map (\<lambda>e. map (\<lambda>v. (e, v)) (joined_values perf (employee_id e)))
                 employees))))"
    unfolding merge_datasets_def Let_def option.case merge_step_joined ..
  then show ?thesis
    by (simp add: concat_map_concat_map comp_def)
qed

lemma concat_const_rows:
  "concat (map (\<lambda>p. map (\<lambda>x. e) xs) ps) = replicate (length ps * length xs) e"
  by (simp add: map_replicate_const concat_replicate_const)

lemma merged_employees:
  "map (\<lambda>m. fst (fst m))
     (concat (map (\<lambda>e. concat (map (\<lambda>p. map (\<lambda>x. ((e, p), x))
                                              (joined_values ex (employee_id e)))
                                    (joined_values perf (employee_id e))))
                     employees))
   = concat (map (\<lambda>e. replicate (max 1 (match_count perf (employee_id e))
                                   * max 1 (match_count ex (employee_id e))) e) employees)"
  by (simp add: map_concat comp_def concat_const_rows length_joined_values)

text \<open>
  C2, amended. The merged table exists whenever there is an employee table. It consists,
  employee by employee in the order of the employee table, of one row for every pair of
  a performance value and an exit-survey value joined to that employee: all rows of the
  joined table with the employee's identifier are used, in their order, and a missing
  value stands in where there is none. So no employee row is dropped, the order is kept,
  and an employee row occurs as many times as the product of the numbers of its
  performance rows and of its exit-survey rows, each number counted as 1 when it is 0.
  When neither joined table has an identifier twice, the merged table has the employee
  rows, each exactly once, so its row count is the employee count.
\<close>

theorem merge_cardinality:
  "\<exists>merged. merge_datasets (Some employees) perf ex = Some merged
     \<and> merged =
         concat (map (\<lambda>e. concat (map (\<lambda>p. map (\<lambda>x. ((e, p), x))
                                              (joined_values ex (employee_id e)))
                                    (joined_values perf (employee_id e))))
                     employees)
     \<and> map (\<lambda>m. fst (fst m)) merged =
         concat (map (\<lambda>e. replicate (max 1 (match_count perf (employee_id e))
                                       * max 1 (match_count ex (employee_id e))) e)
                     employees)
     \<and> length merged =
         (\<Sum>e\<leftarrow>employees. max 1 (match_count perf (employee_id e))
                               * max 1 (match_count ex (employee_id e)))
     \<and> (unique_ids perf \<and> unique_ids ex \<longrightarrow>
          map (\<lambda>m. fst (fst m)) merged = employees \<and> length merged = length employees)"
proof -
  from merged_content [of employees perf ex]
  obtain merged where res: "merge_datasets (Some employees) perf ex = Some merged"
    and content: "merged =
         concat (map (\<lambda>e. concat (map (\<lambda>p. map (\<lambda>x. ((e, p), x))
                                              (joined_values ex (employee_id e)))
                                    (joined_values perf (employee_id e))))
                     employees)"
    by blast
  have emps: "map (\<lambda>m. fst (fst m)) merged =
         concat (map (\<lambda>e. replicate (max 1 (match_count perf (employee_id e))
                                       * max 1 (match_count ex (employee_id e))) e)
                     employees)"
    unfolding content by (rule merged_employees)
  have "length merged = length (map (\<lambda>m. fst (fst m)) merged)" by simp
  also have "\<dots> = (\<Sum>e\<leftarrow>employees. max 1 (match_count perf (employee_id e))
                               * max 1 (match_count ex (employee_id e)))"
    unfolding emps by (simp add: length_concat comp_def)
  finally have len: "length merged =
      (\<Sum>e\<leftarrow>employees. max 1 (match_count perf (employee_id e))
                            * max 1 (match_count ex (employee_id e)))" .
  define m1 where "m1 = (case perf of None \<Rightarrow> map (\<lambda>e. (e, None)) employees
                          | Some rows \<Rightarrow> left_merge employee_id employees rows)"
  define m2 where "m2 = (case ex of None \<Rightarrow> map (\<lambda>m. (m, None)) m1
                          | Some rows \<Rightarrow> left_merge (\<lambda>m. employee_id (fst m)) m1 rows)"
  have "merge_datasets (Some employees) perf ex = Some m2"
    unfolding merge_datasets_def m1_def m2_def Let_def by simp
  with res have m2: "merged = m2" by simp
  have uniq: "map (\<lambda>m. fst (fst m)) merged = employees \<and> length merged = length employees"
    if u: "unique_ids perf" "unique_ids ex"
  proof -
    have a: "map fst m2 = m1"
      unfolding m2_def using u(2) by (rule merge_step_unique)
    have b: "map fst m1 = employees"
      unfolding m1_def using u(1) by (rule merge_step_unique)
    have "map (\<lambda>m. fst (fst m)) m2 = map fst (map fst m2)" by simp
    with a b have c: "map (\<lambda>m. fst (fst m)) m2 = employees" by simp
    have "length m2 = length (map (\<lambda>m. fst (fst m)) m2)" by simp
    also have "\<dots> = length employees" by (simp only: c)
    finally show ?thesis using c by (simp add: m2)
  qed
  from res content emps len uniq show ?thesis by blast
qed

theorem merge_cardinality_witness:
  "map_option length
     (merge_datasets (Some [example_row, second_row])
        (Some [(Some 1, ''review of 1'')]) (Some [(Some 2, ''survey of 2'')])) = Some 2
   \<and> map_option (map (\<lambda>m. fst (fst m)))
     (merge_datasets (Some [example_row, second_row])
        (Some [(Some 1, ''review of 1'')]) (Some [(Some 2, ''survey of 2'')]))
      = Some [example_row, second_row]"
proof -
  have u: "unique_ids (Some [(Some (1::int), ''review of 1'')])
         \<and> unique_ids (Some [(Some (2::int), ''survey of 2'')])"
    by (simp add: unique_ids_def)
  with merge_cardinality [of "[example_row, second_row]"
      "Some [(Some 1, ''review of 1'')]" "Some [(Some 2, ''survey of 2'')]"]
  show ?thesis by auto
qed

text \<open>
  C2, as the specification states it, fails: one employee and a performance table with
  two rows for that employee give a merged table of two rows, one for each match, not
  one row with the first match.
\<close>

theorem merge_duplicates_counterexample:
  "merge_datasets (Some [example_row])
      (Some [(Some 1, ''first review''), (Some 1, ''second review'')])
      (Some ([] :: (int option \<times> string) list))
     = Some [((example_row, Some ''first review''), None),
             ((example_row, Some ''second review''), None)]
   \<and> length [((example_row, Some ''first review''), None :: string option),
              ((example_row, Some ''second review''), None)] \<noteq> length [example_row]"
  by (simp add: merge_datasets_def left_merge_def merge_row_def matches_def example_row_def)

section \<open>Properties of the aggregation\<close>

lemma total_agg_group:
  "total_employees (agg_group key df g) =
     length (filter (\<lambda>r. key r = Some g \<and> employee_id r \<noteq> None) df)"
  by (simp add: agg_group_def group_rows_def Let_def conj_commute)


lemma indicator_sum_distinct:
  "distinct ks \<Longrightarrow>
     (\<Sum>g\<leftarrow>ks. if k = Some g \<and> P then 1 else 0) =
       (if (\<exists>g\<in>set ks. k = Some g) \<and> P then (1::nat) else 0)"
  by (induction ks) auto

lemma sum_group_counts:
  assumes "distinct ks"
  shows "(\<Sum>g\<leftarrow>ks. length (filter (\<lambda>r. key r = Some g \<and> P r) df)) =
           length (filter (\<lambda>r. (\<exists>g\<in>set ks. key r = Some g) \<and> P r) df)"
proof (induction df)
  case Nil
  show ?case by simp
next
  case (Cons r df)
  have "(\<Sum>g\<leftarrow>ks. length (filter (\<lambda>r. key r = Some g \<and> P r) (r # df))) =
        (\<Sum>g\<leftarrow>ks. (if key r = Some g \<and> P r then 1 else 0)
                    + length (filter (\<lambda>r. key r = Some g \<and> P r) df))"
    by (intro arg_cong [where f = sum_list] map_cong) auto
  also have "\<dots> = (\<Sum>g\<leftarrow>ks. if key r = Some g \<and> P r then 1 else 0)
                  + (\<Sum>g\<leftarrow>ks. length (filter (\<lambda>r. key r = Some g \<and> P r) df))"
    by (simp add: sum_list_addf)
  also have "\<dots> = (if (\<exists>g\<in>set ks. key r = Some g) \<and> P r then 1 else 0)
                  + length (filter (\<lambda>r. (\<exists>g\<in>set ks. key r = Some g) \<and> P r) df)"
    using assms by (simp only: indicator_sum_distinct Cons.IH)
  finally show ?case by simp
qed

lemma set_group_keys:
  "set (group_keys key df) = {g. \<exists>r\<in>set df. key r = Some g}"
  by (force simp: group_keys_def List.map_filter_def image_iff)

lemma distinct_group_keys: "distinct (group_keys key df)"
  by (simp add: group_keys_def)

lemma sum_totals_categorical:
  "distinct cats \<Longrightarrow>
   (\<Sum>g\<leftarrow>groupby_agg_categorical cats key df. total_employees g) =
      length (filter (\<lambda>r. (\<exists>c\<in>set cats. key r = Some c) \<and> employee_id r \<noteq> None) df)"
  by (simp add: groupby_agg_categorical_def comp_def total_agg_group sum_group_counts)

lemma sum_totals_groupby:
  "(\<Sum>g\<leftarrow>groupby_agg key df. total_employees g) =
      length (filter (\<lambda>r. key r \<noteq> None \<and> employee_id r \<noteq> None) df)"
proof -
  have "(\<Sum>g\<leftarrow>groupby_agg key df. total_employees g) =
      length (filter (\<lambda>r. (\<exists>c\<in>set (group_keys key df). key r = Some c)
                            \<and> employee_id r \<noteq> None) df)"
    by (simp add: groupby_agg_def comp_def total_agg_group sum_group_counts distinct_group_keys)
  also have "\<dots> = length (filter (\<lambda>r. key r \<noteq> None \<and> employee_id r \<noteq> None) df)"
    by (intro arg_cong [where f = length] filter_cong) (auto simp: set_group_keys)
  finally show ?thesis .
qed

lemma sum_totals_sort_by_rate:
  "(\<Sum>g\<leftarrow>sort_by_rate t. total_employees g) = (\<Sum>g\<leftarrow>t. total_employees g)"
proof -
  have "mset (map total_employees (sort_by_rate t)) = mset (map total_employees t)"
    by (simp add: sort_by_rate_def)
  then show ?thesis by (metis sum_mset_sum_list)
qed










text \<open>
  C8, amended. The per-group counts of a grouping add up to the number of rows that carry
  an identifier and belong to a group: rows whose key is present, for an ordinary column;
  rows whose key is one of the bucket labels, for a bucketed column. When every row has a
  key and an identifier, the counts add up to the number of rows of the table. Sorting the
  department table by rate does not change the sum.
\<close>

theorem group_counts_partition:
  "(\<Sum>g\<leftarrow>groupby_agg key df. total_employees g) =
      length (filter (\<lambda>r. key r \<noteq> None \<and> employee_id r \<noteq> None) df)
   \<and> (distinct cats \<longrightarrow>
        (\<Sum>g\<leftarrow>groupby_agg_categorical cats key df. total_employees g) =
          length (filter (\<lambda>r. (\<exists>c\<in>set cats. key r = Some c) \<and> employee_id r \<noteq> None) df))
   \<and> ((\<forall>r\<in>set df. key r \<noteq> None \<and> employee_id r \<noteq> None) \<longrightarrow>
        (\<Sum>g\<leftarrow>groupby_agg key df. total_employees g) = length df)
   \<and> (\<forall>overall t. calculate_attrition_rates df = Inr (overall, t) \<longrightarrow>
        (\<Sum>g\<leftarrow>t. total_employees g) =
          length (filter (\<lambda>r. department r \<noteq> None \<and> employee_id r \<noteq> None) df))"
proof (intro conjI impI allI)
  show a: "(\<Sum>g\<leftarrow>groupby_agg key df. total_employees g) =
      length (filter (\<lambda>r. key r \<noteq> None \<and> employee_id r \<noteq> None) df)"
    by (rule sum_totals_groupby)
  show "(\<Sum>g\<leftarrow>groupby_agg_categorical cats key df. total_employees g) =
      length (filter (\<lambda>r. (\<exists>c\<in>set cats. key r = Some c) \<and> employee_id r \<noteq> None) df)"
    if "distinct cats"
    using that by (rule sum_totals_categorical)
  show "(\<Sum>g\<leftarrow>groupby_agg key df. total_employees g) = length df"
    if "\<forall>r\<in>set df. key r \<noteq> None \<and> employee_id r \<noteq> None"
  proof -
    from that have "filter (\<lambda>r. key r \<noteq> None \<and> employee_id r \<noteq> None) df = df"
      by (simp add: filter_id_conv)
    with a show ?thesis by simp
  qed
  show "(\<Sum>g\<leftarrow>t. total_employees g) =
      length (filter (\<lambda>r. department r \<noteq> None \<and> employee_id r \<noteq> None) df)"
    if "calculate_attrition_rates df = Inr (overall, t)" for overall t
  proof -
    from that have "t = sort_by_rate (groupby_agg department df)"
      by (simp add: calculate_attrition_rates_def Let_def split: if_splits)
    then show ?thesis
      by (simp only: sum_totals_sort_by_rate sum_totals_groupby)
  qed
qed

theorem group_counts_partition_witness:
  "(\<Sum>g\<leftarrow>groupby_agg department [example_row, second_row]. total_employees g) = 2
   \<and> (\<Sum>g\<leftarrow>groupby_agg_categorical [''IT'', ''HR''] department [example_row, second_row].
         total_employees g) = 2
   \<and> (\<exists>t. calculate_attrition_rates [example_row, second_row] = Inr (50, t)
          \<and> (\<Sum>g\<leftarrow>t. total_employees g) = 2)"
proof -
  have d: "distinct [''IT'', ''HR'']" by simp
  have p: "\<forall>r\<in>set [example_row, second_row]. department r \<noteq> None \<and> employee_id r \<noteq> None"
    by (simp add: example_row_def second_row_def)
  have c: "calculate_attrition_rates [example_row, second_row] =
      Inr (50, sort_by_rate (groupby_agg department [example_row, second_row]))"
    by (simp add: calculate_attrition_rates_def example_row_def second_row_def Let_def)
  have f: "length (filter (\<lambda>r. department r \<noteq> None \<and> employee_id r \<noteq> None)
             [example_row, second_row]) = 2"
    "length (filter (\<lambda>r. (\<exists>c\<in>set [''IT'', ''HR'']. department r = Some c)
                          \<and> employee_id r \<noteq> None) [example_row, second_row]) = 2"
    by (simp_all add: example_row_def second_row_def)
  from group_counts_partition [of department "[example_row, second_row]" "[''IT'', ''HR'']"]
    d p c f
  show ?thesis by (auto simp del: list.set)
qed

text \<open>
  C8, as the specification states it, fails: a row without a department belongs to no
  department group, and a row with tenure 0 lies in none of the tenure intervals, the
  first of which is (0,1]; in both tables the counts add up to 0 for a table of one row.
\<close>

theorem group_counts_counterexample:
  "(\<Sum>g\<leftarrow>groupby_agg department [example_row\<lparr>department := None\<rparr>]. total_employees g) = 0
   \<and> length [example_row\<lparr>department := None\<rparr>] = 1
   \<and> (\<exists>t. analyze_tenure_impact [example_row\<lparr>years_at_company := Some 0\<rparr>] = Inr t
          \<and> (\<Sum>g\<leftarrow>t. total_employees g) = 0)
   \<and> length [example_row\<lparr>years_at_company := Some 0\<rparr>] = 1"
  by (simp add: groupby_agg_def group_keys_def analyze_tenure_impact_def
      groupby_agg_categorical_def agg_group_def group_rows_def tenure_group_labels_def
      analysis_tenure_group_def cut_cell_def le_num_def example_row_def Let_def)

section \<open>Properties of cleaning\<close>

subsection \<open>Text\<close>

lemmas char_case_defs =
  to_upper_def to_lower_def is_upper_def is_lower_def is_cased_def is_space_def is_ascii_def

lemma to_upper_idem [simp]: "to_upper (to_upper c) = to_upper c"
  by (auto simp: char_case_defs)

lemma to_lower_idem [simp]: "to_lower (to_lower c) = to_lower c"
  by (auto simp: char_case_defs)

lemma to_upper_to_lower [simp]: "to_upper (to_lower c) = to_upper c"
  by (auto simp: char_case_defs)

lemma to_lower_to_upper [simp]: "to_lower (to_upper c) = to_lower c"
  by (auto simp: char_case_defs)

lemma is_cased_to_upper [simp]: "is_cased (to_upper c) = is_cased c"
  by (auto simp: char_case_defs)

lemma is_cased_to_lower [simp]: "is_cased (to_lower c) = is_cased c"
  by (auto simp: char_case_defs)

lemma is_space_to_upper [simp]: "is_space (to_upper c) = is_space c"
  by (auto simp: char_case_defs)

lemma is_space_to_lower [simp]: "is_space (to_lower c) = is_space c"
  by (auto simp: char_case_defs)

lemma is_ascii_to_upper [simp]: "is_ascii (to_upper c) = is_ascii c"
  by (auto simp: char_case_defs)

lemma is_ascii_to_lower [simp]: "is_ascii (to_lower c) = is_ascii c"
  by (auto simp: char_case_defs)




































subsection \<open>The row-wise form of the cleaning steps\<close>

lemma cap_column_rowwise:
  assumes law_id: "\<And>f r. f (col r) = col r \<Longrightarrow> col_update f r = r"
    and law_comp: "\<And>f g r. col_update f (col_update g r) = col_update (\<lambda>c. f (g c)) r"
  shows "cap_column col col_update lo hi df = map (col_update (cap_cell lo hi)) df"
proof (cases "\<exists>r\<in>set df. lt_num (col r) lo \<or> gt_num (col r) hi")
  case True
  then show ?thesis
    by (simp add: cap_column_def law_comp cap_cell_def [abs_def] comp_def)
next
  case False
  have "col_update (cap_cell lo hi) r = r" if "r \<in> set df" for r
  proof (rule law_id)
    from that False have "\<not> lt_num (col r) lo" "\<not> gt_num (col r) hi" by auto
    then show "cap_cell lo hi (col r) = col r"
      by (simp add: cap_cell_def cap_low_def cap_high_def)
  qed
  then have "map (col_update (cap_cell lo hi)) df = df" by (simp add: map_idI)
  with False show ?thesis by (simp add: cap_column_def)
qed

lemma fill_column_rowwise:
  assumes law_id: "\<And>f r. f (col r) = col r \<Longrightarrow> col_update f r = r"
  shows "fill_column col col_update m df = map (col_update (fillna m)) df"
proof (cases "\<exists>r\<in>set df. col r = None")
  case True
  then show ?thesis by (simp add: fill_column_def)
next
  case False
  have "col_update (fillna m) r = r" if "r \<in> set df" for r
  proof (rule law_id)
    from that False obtain v where "col r = Some v" by auto
    then show "fillna m (col r) = col r" by (simp add: fillna_def)
  qed
  then have "map (col_update (fillna m)) df = df" by (simp add: map_idI)
  with False show ?thesis by (simp add: fill_column_def)
qed

lemma update_laws:
  "\<And>f (r::employee). f (age r) = age r \<Longrightarrow> age_update f r = r"
  "\<And>f (r::employee). f (monthly_income r) = monthly_income r \<Longrightarrow> monthly_income_update f r = r"
  "\<And>f (r::employee). f (years_at_company r) = years_at_company r \<Longrightarrow> years_at_company_update f r = r"
  "\<And>f (r::employee). f (performance_rating r) = performance_rating r \<Longrightarrow> performance_rating_update f r = r"
  "\<And>f (r::employee). f (job_satisfaction r) = job_satisfaction r \<Longrightarrow> job_satisfaction_update f r = r"
  "\<And>f (r::employee). f (work_life_balance r) = work_life_balance r \<Longrightarrow> work_life_balance_update f r = r"
  "\<And>f (r::employee). f (distance_from_home r) = distance_from_home r \<Longrightarrow> distance_from_home_update f r = r"
  by (case_tac [!] r) simp_all

lemma cap_columns_rowwise:
  "cap_column age age_update lo hi df = map (age_update (cap_cell lo hi)) df"
  "cap_column monthly_income monthly_income_update lo hi df = map (monthly_income_update (cap_cell lo hi)) df"
  "cap_column years_at_company years_at_company_update lo hi df = map (years_at_company_update (cap_cell lo hi)) df"
  "cap_column performance_rating performance_rating_update lo hi df = map (performance_rating_update (cap_cell lo hi)) df"
  "cap_column job_satisfaction job_satisfaction_update lo hi df = map (job_satisfaction_update (cap_cell lo hi)) df"
  "cap_column work_life_balance work_life_balance_update lo hi df = map (work_life_balance_update (cap_cell lo hi)) df"
  "cap_column distance_from_home distance_from_home_update lo hi df = map (distance_from_home_update (cap_cell lo hi)) df"
  by (rule cap_column_rowwise; simp add: update_laws)+

lemma fill_columns_rowwise:
  "fill_column job_satisfaction job_satisfaction_update m df = map (job_satisfaction_update (fillna m)) df"
  "fill_column work_life_balance work_life_balance_update m df = map (work_life_balance_update (fillna m)) df"
  "fill_column performance_rating performance_rating_update m df = map (performance_rating_update (fillna m)) df"
  "fill_column distance_from_home distance_from_home_update m df = map (distance_from_home_update (fillna m)) df"
  by (rule fill_column_rowwise; simp add: update_laws)+

lemma clean_rowwise:
  "clean_employee_data parse (Some raw) =
     Some (map (fill_row (column_median job_satisfaction (prefill_table parse raw))
                         (column_median work_life_balance (prefill_table parse raw))
                         (column_median performance_rating (prefill_table parse raw))
                         (column_median distance_from_home (prefill_table parse raw)))
               (prefill_table parse raw))"
proof -
  have pre: "map (attrition_date_update (to_datetime parse))
       (map (distance_from_home_update (cap_cell 0 100))
       (map (work_life_balance_update (cap_cell 1 5))
       (map (job_satisfaction_update (cap_cell 1 5))
       (map (performance_rating_update (cap_cell 1 5))
       (map (years_at_company_update (cap_cell 0 50))
       (map (monthly_income_update (cap_cell 1000 20000))
       (map (age_update (cap_cell 18 70))
       (map clean_text_columns (drop_duplicates raw))))))))) = prefill_table parse raw"
    by (simp add: prefill_table_def prefill_row_def cap_row_def comp_def)
  have fill: "map (distance_from_home_update (fillna d))
       (map (performance_rating_update (fillna c))
       (map (work_life_balance_update (fillna b))
       (map (job_satisfaction_update (fillna a)) t))) = map (fill_row a b c d) t" for a b c d t
    by (simp add: fill_row_def comp_def)
  show ?thesis
    unfolding clean_employee_data_def Let_def option.case cap_columns_rowwise
      fill_columns_rowwise pre fill ..
qed

subsection \<open>Medians, duplicates and the cells of a cleaned row\<close>

lemma sort_Nil_iff: "sort xs = [] \<longleftrightarrow> xs = []"
  by (metis length_sort length_0_conv)

lemma median_None_iff: "median xs = None \<longleftrightarrow> xs = []"
proof (cases "xs = []")
  case True
  then show ?thesis by (simp add: median_def)
next
  case False
  then have "length (sort xs) \<noteq> 0" by simp
  then have "median xs \<noteq> None"
    unfolding median_def Let_def by (simp only: if_False split: if_split) simp
  with False show ?thesis by simp
qed

lemma median_in_bounds:
  assumes "\<forall>x\<in>set xs. lo \<le> x \<and> x \<le> hi"
  shows "in_bounds lo hi (median xs)"
proof (cases "xs = []")
  case True
  then show ?thesis by (simp add: median_def in_bounds_def)
next
  case False
  define s where "s = sort xs"
  define n where "n = length s"
  have n: "0 < n" using False by (simp add: n_def s_def)
  have mem: "lo \<le> s ! i \<and> s ! i \<le> hi" if "i < n" for i
  proof -
    from that have "s ! i \<in> set s" by (simp add: n_def)
    then have "s ! i \<in> set xs" by (simp add: s_def)
    with assms show ?thesis by blast
  qed
  have a: "n div 2 < n" using n by simp
  have b: "n div 2 - 1 < n" using n by simp
  from mem [OF a] mem [OF b]
  have "lo \<le> (s ! (n div 2 - 1) + s ! (n div 2)) / 2 \<and> (s ! (n div 2 - 1) + s ! (n div 2)) / 2 \<le> hi"
    by (simp add: field_simps)
  with mem [OF a] n show ?thesis
    unfolding median_def Let_def in_bounds_def s_def [symmetric] n_def [symmetric] by simp
qed

lemma set_map_filter_col:
  "set (List.map_filter col df) = {v. \<exists>r\<in>set df. col r = Some v}"
  by (force simp: List.map_filter_def image_iff)

lemma column_median_None_iff:
  "column_median col df = None \<longleftrightarrow> (\<forall>r\<in>set df. col r = None)"
proof -
  have "List.map_filter col df = [] \<longleftrightarrow> set (List.map_filter col df) = {}" by simp
  also have "\<dots> \<longleftrightarrow> (\<forall>r\<in>set df. col r = None)"
  proof
    assume e: "set (List.map_filter col df) = {}"
    show "\<forall>r\<in>set df. col r = None"
    proof
      fix r assume r: "r \<in> set df"
      show "col r = None"
      proof (cases "col r")
        case None
        then show ?thesis .
      next
        case (Some v)
        with r have "v \<in> set (List.map_filter col df)"
          unfolding set_map_filter_col by blast
        with e show ?thesis by simp
      qed
    qed
  next
    assume "\<forall>r\<in>set df. col r = None"
    then show "set (List.map_filter col df) = {}"
      unfolding set_map_filter_col by auto
  qed
  finally show ?thesis by (simp add: column_median_def median_None_iff)
qed

lemma column_median_in_bounds:
  assumes "\<forall>r\<in>set df. in_bounds lo hi (col r)"
  shows "in_bounds lo hi (column_median col df)"
  unfolding column_median_def
proof (rule median_in_bounds, rule ballI)
  fix x assume "x \<in> set (List.map_filter col df)"
  then obtain r where "r \<in> set df" "col r = Some x" by (auto simp: set_map_filter_col)
  with assms show "lo \<le> x \<and> x \<le> hi" by (force simp: in_bounds_def)
qed

lemma drop_duplicates_from_unseen:
  "r \<in> set (drop_duplicates_from seen df) \<Longrightarrow> employee_id r \<notin> set seen"
proof (induction df arbitrary: seen)
  case Nil
  then show ?case by simp
next
  case (Cons x df)
  show ?case
  proof (cases "employee_id x \<in> set seen")
    case True
    with Cons show ?thesis by simp
  next
    case False
    with Cons.prems have "r = x \<or> r \<in> set (drop_duplicates_from (employee_id x # seen) df)"
      by simp
    then show ?thesis
    proof
      assume "r = x"
      with False show ?thesis by simp
    next
      assume "r \<in> set (drop_duplicates_from (employee_id x # seen) df)"
      then have "employee_id r \<notin> set (employee_id x # seen)" by (rule Cons.IH)
      then show ?thesis by simp
    qed
  qed
qed

lemma drop_duplicates_from_ids:
  "distinct (map employee_id (drop_duplicates_from seen df))"
proof (induction df arbitrary: seen)
  case Nil
  show ?case by simp
next
  case (Cons x df)
  have "employee_id x \<notin> employee_id ` set (drop_duplicates_from (employee_id x # seen) df)"
  proof
    assume "employee_id x \<in> employee_id ` set (drop_duplicates_from (employee_id x # seen) df)"
    then obtain r where r: "r \<in> set (drop_duplicates_from (employee_id x # seen) df)"
      and e: "employee_id x = employee_id r" by (rule imageE)
    from r have "employee_id r \<notin> set (employee_id x # seen)"
      by (rule drop_duplicates_from_unseen)
    with e show False by simp
  qed
  with Cons show ?case by simp
qed


lemma distinct_drop_duplicates: "distinct (map employee_id (drop_duplicates df))"
  by (simp add: drop_duplicates_def drop_duplicates_from_ids)


lemma cap_cell_in_bounds: "lo \<le> hi \<Longrightarrow> in_bounds lo hi (cap_cell lo hi c)"
  by (cases c) (auto simp: in_bounds_def cap_cell_def cap_low_def cap_high_def lt_num_def gt_num_def)


lemma cap_cell_clamp: "lo \<le> hi \<Longrightarrow> cap_cell lo hi c = clamp lo hi c"
  by (cases c) (auto simp: clamp_def cap_cell_def cap_low_def cap_high_def lt_num_def gt_num_def)

lemma in_bounds_fillna:
  "in_bounds lo hi m \<Longrightarrow> in_bounds lo hi c \<Longrightarrow> in_bounds lo hi (fillna m c)"
  by (cases c) (simp_all add: fillna_def)

lemma to_datetime_again: "to_datetime parse (to_datetime parse c) = to_datetime parse c"
  by (simp add: to_datetime_def split: date_cell.splits option.splits)

lemma prefill_row_valid: "numeric_fields_valid (prefill_row parse r)"
  by (simp add: numeric_fields_valid_def prefill_row_def cap_row_def cap_cell_in_bounds)

lemma fill_row_valid:
  assumes "numeric_fields_valid r" and "in_bounds 1 5 a" and "in_bounds 1 5 b"
    and "in_bounds 1 5 c" and "in_bounds 0 100 d"
  shows "numeric_fields_valid (fill_row a b c d r)"
  using assms by (simp add: numeric_fields_valid_def fill_row_def in_bounds_fillna)





lemma cleaned_row_date:
  "to_datetime parse (attrition_date (fill_row a b c d (prefill_row parse r)))
     = attrition_date (fill_row a b c d (prefill_row parse r))"
  by (simp add: fill_row_def prefill_row_def to_datetime_again)

lemma cleaned_row_id:
  "employee_id (fill_row a b c d (prefill_row parse r)) = employee_id r"
  by (simp add: fill_row_def prefill_row_def cap_row_def clean_text_columns_def)

subsection \<open>The cleaned table\<close>

lemma prefill_medians_in_bounds:
  "in_bounds 1 5 (column_median job_satisfaction (prefill_table parse raw))"
  "in_bounds 1 5 (column_median work_life_balance (prefill_table parse raw))"
  "in_bounds 1 5 (column_median performance_rating (prefill_table parse raw))"
  "in_bounds 0 100 (column_median distance_from_home (prefill_table parse raw))"
  by (rule column_median_in_bounds;
      simp add: prefill_table_def prefill_row_def cap_row_def cap_cell_in_bounds)+

lemma all_or_none_filled:
  "all_or_none (\<lambda>r. fillna (column_median col t) (col r)) t"
proof (cases "column_median col t")
  case None
  then have "\<forall>r\<in>set t. col r = None" by (simp add: column_median_None_iff)
  with None show ?thesis by (simp add: all_or_none_def fillna_def)
next
  case (Some m)
  have "fillna (Some m) c \<noteq> None" for c by (cases c) (simp_all add: fillna_def)
  with Some show ?thesis by (simp add: all_or_none_def)
qed

lemma all_or_none_map: "all_or_none col (map f t) = all_or_none (\<lambda>r. col (f r)) t"
  by (simp add: all_or_none_def)

text \<open>What holds of every cleaned table.\<close>

lemma cleaned_table:
  assumes "clean_employee_data parse (Some raw) = Some out"
  shows "\<forall>r\<in>set out. numeric_fields_valid r
            \<and> to_datetime parse (attrition_date r) = attrition_date r"
    and "distinct (map employee_id out)"
    and "all_or_none job_satisfaction out" and "all_or_none work_life_balance out"
    and "all_or_none performance_rating out" and "all_or_none distance_from_home out"
    and "length out = length (drop_duplicates raw)"
proof -
  define t where "t = prefill_table parse raw"
  define a where "a = column_median job_satisfaction t"
  define b where "b = column_median work_life_balance t"
  define c where "c = column_median performance_rating t"
  define d where "d = column_median distance_from_home t"
  have out: "out = map (fill_row a b c d) t"
    using assms unfolding clean_rowwise a_def b_def c_def d_def t_def by simp
  have med: "in_bounds 1 5 a" "in_bounds 1 5 b" "in_bounds 1 5 c" "in_bounds 0 100 d"
    unfolding a_def b_def c_def d_def t_def by (rule prefill_medians_in_bounds)+
  show "\<forall>r\<in>set out. numeric_fields_valid r
            \<and> to_datetime parse (attrition_date r) = attrition_date r"
  proof
    fix r assume "r \<in> set out"
    then obtain r0 where r: "r = fill_row a b c d (prefill_row parse r0)"
      by (auto simp: out t_def prefill_table_def)
    have "numeric_fields_valid r"
      unfolding r using prefill_row_valid med by (rule fill_row_valid)
    then show "numeric_fields_valid r
            \<and> to_datetime parse (attrition_date r) = attrition_date r"
      by (simp add: r cleaned_row_date)
  qed
  have "map employee_id out = map employee_id (drop_duplicates raw)"
    by (simp add: out t_def prefill_table_def comp_def cleaned_row_id)
  then show "distinct (map employee_id out)"
    by (simp add: distinct_drop_duplicates)
  have fr: "job_satisfaction (fill_row fa fb fc fd r) = fillna fa (job_satisfaction r)"
    "work_life_balance (fill_row fa fb fc fd r) = fillna fb (work_life_balance r)"
    "performance_rating (fill_row fa fb fc fd r) = fillna fc (performance_rating r)"
    "distance_from_home (fill_row fa fb fc fd r) = fillna fd (distance_from_home r)"
    for fa fb fc fd r
    by (simp_all add: fill_row_def)
  show "all_or_none job_satisfaction out"
    unfolding out all_or_none_map fr a_def by (rule all_or_none_filled)
  show "all_or_none work_life_balance out"
    unfolding out all_or_none_map fr b_def by (rule all_or_none_filled)
  show "all_or_none performance_rating out"
    unfolding out all_or_none_map fr c_def by (rule all_or_none_filled)
  show "all_or_none distance_from_home out"
    unfolding out all_or_none_map fr d_def by (rule all_or_none_filled)
  show "length out = length (drop_duplicates raw)"
    by (simp add: out t_def prefill_table_def)
qed







lemma map_filter_map: "List.map_filter col (map f xs) = List.map_filter (\<lambda>r. col (f r)) xs"
  by (induction xs) (simp_all split: option.split)

lemma column_median_map: "column_median col (map f xs) = column_median (\<lambda>r. col (f r)) xs"
  by (simp add: column_median_def map_filter_map)

lemma prefill_row_cells:
  "age (prefill_row parse r) = clamp 18 70 (age r)"
  "monthly_income (prefill_row parse r) = clamp 1000 20000 (monthly_income r)"
  "years_at_company (prefill_row parse r) = clamp 0 50 (years_at_company r)"
  "performance_rating (prefill_row parse r) = clamp 1 5 (performance_rating r)"
  "job_satisfaction (prefill_row parse r) = clamp 1 5 (job_satisfaction r)"
  "work_life_balance (prefill_row parse r) = clamp 1 5 (work_life_balance r)"
  "distance_from_home (prefill_row parse r) = clamp 0 100 (distance_from_home r)"
  by (simp_all add: prefill_row_def cap_row_def clean_text_columns_def cap_cell_clamp)

lemma fill_row_cells:
  "age (fill_row a b c d r) = age r"
  "monthly_income (fill_row a b c d r) = monthly_income r"
  "years_at_company (fill_row a b c d r) = years_at_company r"
  "performance_rating (fill_row a b c d r) = fillna c (performance_rating r)"
  "job_satisfaction (fill_row a b c d r) = fillna a (job_satisfaction r)"
  "work_life_balance (fill_row a b c d r) = fillna b (work_life_balance r)"
  "distance_from_home (fill_row a b c d r) = fillna d (distance_from_home r)"
  by (simp_all add: fill_row_def)

text \<open>
  C5, amended. In the cleaned table every value of the seven validated columns that is
  not missing lies within the bounds of its column. Capping discards no row: the cleaned
  table has the rows that are left after the duplicates are dropped, and a value outside
  its range has become the nearest bound. In \<open>age\<close>, \<open>monthly_income\<close> and
  \<open>years_at_company\<close> a missing value stays missing. In the four other columns a
  missing value becomes the median of the capped column, so that such a column has a
  value in every row, or in none when it had no value at all.
\<close>

theorem cleaned_values_in_range:
  assumes "clean_employee_data parse (Some raw) = Some out"
  shows "(\<forall>r\<in>set out. numeric_fields_valid r)
     \<and> length out = length (drop_duplicates raw)
     \<and> map age out = map (\<lambda>r. clamp 18 70 (age r)) (drop_duplicates raw)
     \<and> map monthly_income out =
         map (\<lambda>r. clamp 1000 20000 (monthly_income r)) (drop_duplicates raw)
     \<and> map years_at_company out =
         map (\<lambda>r. clamp 0 50 (years_at_company r)) (drop_duplicates raw)
     \<and> map performance_rating out =
         map (\<lambda>r. fillna (column_median (\<lambda>r. clamp 1 5 (performance_rating r))
                              (drop_duplicates raw))
                     (clamp 1 5 (performance_rating r))) (drop_duplicates raw)
     \<and> map job_satisfaction out =
         map (\<lambda>r. fillna (column_median (\<lambda>r. clamp 1 5 (job_satisfaction r))
                              (drop_duplicates raw))
                     (clamp 1 5 (job_satisfaction r))) (drop_duplicates raw)
     \<and> map work_life_balance out =
         map (\<lambda>r. fillna (column_median (\<lambda>r. clamp 1 5 (work_life_balance r))
                              (drop_duplicates raw))
                     (clamp 1 5 (work_life_balance r))) (drop_duplicates raw)
     \<and> map distance_from_home out =
         map (\<lambda>r. fillna (column_median (\<lambda>r. clamp 0 100 (distance_from_home r))
                              (drop_duplicates raw))
                     (clamp 0 100 (distance_from_home r))) (drop_duplicates raw)
     \<and> all_or_none performance_rating out \<and> all_or_none job_satisfaction out
     \<and> all_or_none work_life_balance out \<and> all_or_none distance_from_home out"
proof -
  note ct = cleaned_table [OF assms]
  have out: "out = map (fill_row (column_median job_satisfaction (prefill_table parse raw))
                         (column_median work_life_balance (prefill_table parse raw))
                         (column_median performance_rating (prefill_table parse raw))
                         (column_median distance_from_home (prefill_table parse raw)))
               (prefill_table parse raw)"
    using assms by (simp add: clean_rowwise)
  have cols: "map age out = map (\<lambda>r. clamp 18 70 (age r)) (drop_duplicates raw)"
    "map monthly_income out =
         map (\<lambda>r. clamp 1000 20000 (monthly_income r)) (drop_duplicates raw)"
    "map years_at_company out =
         map (\<lambda>r. clamp 0 50 (years_at_company r)) (drop_duplicates raw)"
    "map performance_rating out =
         map (\<lambda>r. fillna (column_median (\<lambda>r. clamp 1 5 (performance_rating r))
                              (drop_duplicates raw))
                     (clamp 1 5 (performance_rating r))) (drop_duplicates raw)"
    "map job_satisfaction out =
         map (\<lambda>r. fillna (column_median (\<lambda>r. clamp 1 5 (job_satisfaction r))
                              (drop_duplicates raw))
                     (clamp 1 5 (job_satisfaction r))) (drop_duplicates raw)"
    "map work_life_balance out =
         map (\<lambda>r. fillna (column_median (\<lambda>r. clamp 1 5 (work_life_balance r))
                              (drop_duplicates raw))
                     (clamp 1 5 (work_life_balance r))) (drop_duplicates raw)"
    "map distance_from_home out =
         map (\<lambda>r. fillna (column_median (\<lambda>r. clamp 0 100 (distance_from_home r))
                              (drop_duplicates raw))
                     (clamp 0 100 (distance_from_home r))) (drop_duplicates raw)"
    unfolding out prefill_table_def
    by (simp_all add: comp_def fill_row_cells prefill_row_cells column_median_map)
  from ct(1) have "\<forall>r\<in>set out. numeric_fields_valid r" by blast
  with ct(3-7) cols show ?thesis by simp
qed

theorem cleaned_values_in_range_witness:
  "\<exists>out. clean_employee_data (\<lambda>s. None) (Some raw_table) = Some out
     \<and> length out = 2
     \<and> map age out = [Some 18, Some 45]
     \<and> map monthly_income out = [Some 20000, None]
     \<and> map job_satisfaction out = [Some 5, Some 1]
     \<and> map work_life_balance out = [Some 4, Some 4]
     \<and> map distance_from_home out = [Some 3, Some 100]"
proof -
  obtain out where out: "clean_employee_data (\<lambda>s. None) (Some raw_table) = Some out"
    by (simp add: clean_rowwise)
  have dd: "drop_duplicates raw_table = [raw_row1, raw_row2]"
    by (simp add: drop_duplicates_def raw_table_def raw_row1_def raw_row2_def
        example_row_def second_row_def)
  have cells: "age raw_row1 = Some 17" "age raw_row2 = Some 45"
    "monthly_income raw_row1 = Some 25000" "monthly_income raw_row2 = None"
    "job_satisfaction raw_row1 = Some 7" "job_satisfaction raw_row2 = Some 1"
    "work_life_balance raw_row1 = None" "work_life_balance raw_row2 = Some 4"
    "distance_from_home raw_row1 = Some 3" "distance_from_home raw_row2 = Some 120"
    by (simp_all add: raw_row1_def raw_row2_def example_row_def second_row_def)
  from cleaned_values_in_range [OF out]
  have "length out = 2 \<and> map age out = [Some 18, Some 45]
     \<and> map monthly_income out = [Some 20000, None]
     \<and> map job_satisfaction out = [Some 5, Some 1]
     \<and> map work_life_balance out = [Some 4, Some 4]
     \<and> map distance_from_home out = [Some 3, Some 100]"
    by (simp add: dd cells clamp_def fillna_def column_median_def median_def)
  with out show ?thesis by (intro exI [of _ out]) simp
qed

text \<open>
  C5, as the specification states it, fails: an employee whose age is missing has no age
  after cleaning either, so not every row has an age between 18 and 70.
\<close>

theorem missing_value_counterexample:
  "map_option (map age) (clean_employee_data (\<lambda>s. None) (Some [example_row])) = Some [None]
   \<and> \<not> (\<forall>out. clean_employee_data (\<lambda>s. None) (Some [example_row]) = Some out \<longrightarrow>
          (\<forall>r\<in>set out. \<exists>v. age r = Some v \<and> 18 \<le> v \<and> v \<le> 70))"
proof -
  have a: "map_option (map age) (clean_employee_data (\<lambda>s. None) (Some [example_row]))
      = Some [None]"
    by (simp add: clean_rowwise prefill_table_def drop_duplicates_def fill_row_cells
        prefill_row_cells clamp_def example_row_def)
  then obtain out where out: "clean_employee_data (\<lambda>s. None) (Some [example_row]) = Some out"
    and ages: "map age out = [None]" by auto
  from ages obtain r where "r \<in> set out" "age r = None" by (cases out) auto
  with out a show ?thesis by force
qed


end
